theory Spec2Isabelle
  imports Complex_Main "HOL-Library.Sublist"
begin

section \<open>Flickerfy: the frame chain of \<open>src/index.tsx\<close>\<close>

text \<open>
  The theory embeds the pipeline functions of \<open>src/index.tsx\<close>:
  \<open>generateFrames\<close> (lines 488-559) with its retry loop, the response handling of
  \<open>detectObjects\<close> (423-454) and \<open>generatePrompts\<close> (456-486), and the two
  orchestrating handlers \<open>runObjectDetection\<close> (373-393) and
  \<open>handleGenerateAnimation\<close> (395-421).

  JavaScript values that may be \<open>undefined\<close> are options. An \<open>Error\<close> thrown by
  the code of the file is its message (a string). A value with which a call of the
  image service rejects is a \<open>string option\<close>: \<open>Some m\<close> when its \<open>message\<close> is
  the string \<open>m\<close>, \<open>None\<close> when it has no string message (a thrown string, an
  object without \<open>message\<close>), which matters in line 533. Strings are lists of 8-bit
  characters.
\<close>

subsection \<open>Image parts and the generation service\<close>

record inline_data =
  data :: "string option"
  mimeType :: "string option"

record imagePart =
  inlineData :: inline_data

text \<open>Lines 24-26.\<close>

definition base64ToGenerativePart :: "string option \<Rightarrow> string option \<Rightarrow> imagePart" where
  "base64ToGenerativePart base64Data mt =
     \<lparr>inlineData = \<lparr>data = base64Data, mimeType = mt\<rparr>\<rparr>"

text \<open>
  The response of \<open>ai.models.generateContent\<close> as far as line 520-528 reads it:
  \<open>response.candidates?.[0]?.content?.parts\<close> and \<open>finishReason\<close>.
\<close>

record part =
  part_text :: "string option"
  part_inlineData :: "inline_data option"

record content_t =
  parts :: "part list option"

record candidate =
  content :: "content_t option"
  finishReason :: "string option"

record response =
  candidates :: "candidate list option"

datatype outcome = Rejects "string option" | Resolves response

text \<open>
  Everything \<open>generateFrames\<close> does to the outside, in order: the loading message of
  line 494, each request of line 507, the console lines 535, 539 and 544 (with the
  frame number \<open>i + 1\<close> they print), and the timer of line 540.
\<close>

datatype event =
    LoadingMessage nat nat
  | Request imagePart string
  | ConsoleWarnRateLimit nat nat nat
  | Wait nat
  | ConsoleErrorMaxRetries nat string
  | ConsoleErrorOther nat string

text \<open>
  The service is any function of the whole history up to and including the request
  it answers: no two requests of a run have the same history, so this covers every
  sequence of answers. Every request is answered, with a rejection (the thrown
  value, as above) or with a response; a call that never settles is not modelled.
\<close>

type_synonym service = "event list \<Rightarrow> outcome"

subsection \<open>One attempt\<close>

text \<open>\<open>String.prototype.includes\<close>.\<close>

primrec str_includes :: "string \<Rightarrow> string \<Rightarrow> bool" where
  "str_includes [] sub = (sub = [])"
| "str_includes (x # xs) sub = (prefix sub (x # xs) \<or> str_includes xs sub)"

text \<open>Line 533.\<close>

definition isRateLimit :: "string \<Rightarrow> bool" where
  "isRateLimit message = (str_includes message ''429'' \<or> str_includes message ''RESOURCE_EXHAUSTED'')"

definition maxRetries :: nat where
  "maxRetries = 3"

text \<open>
  Line 520: \<open>response.candidates?.[0]?.content?.parts.find(part => part.inlineData)\<close>.
  The chain is optional up to \<open>content\<close>; \<open>parts\<close> is read without \<open>?.\<close>, so a
  content without parts throws a TypeError (its V8 message is used), which the
  \<open>catch\<close> of line 531 receives like any other error.
\<close>

definition parts_undefined_message :: string where
  "parts_undefined_message = ''Cannot read properties of undefined (reading 'find')''"

definition find_image_part :: "response \<Rightarrow> string + part option" where
  "find_image_part r =
     (case candidates r of
        None \<Rightarrow> Inr None
      | Some [] \<Rightarrow> Inr None
      | Some (c # _) \<Rightarrow>
          (case content c of
             None \<Rightarrow> Inr None
           | Some ct \<Rightarrow>
               (case parts ct of
                  None \<Rightarrow> Inl parts_undefined_message
                | Some ps \<Rightarrow> Inr (find (\<lambda>p. part_inlineData p \<noteq> None) ps))))"

text \<open>Line 522: \<open>imagePartResponse?.inlineData?.data\<close> is truthy (a non-empty string).\<close>

definition truthy_image :: "part option \<Rightarrow> inline_data option" where
  "truthy_image p =
     (case p of
        None \<Rightarrow> None
      | Some q \<Rightarrow>
          (case part_inlineData q of
             None \<Rightarrow> None
           | Some d \<Rightarrow>
               (case data d of
                  None \<Rightarrow> None
                | Some b \<Rightarrow> if b = [] then None else Some d)))"

text \<open>Lines 528-529.\<close>

definition no_image_message :: "response \<Rightarrow> string" where
  "no_image_message r =
     (let reason =
        (case candidates r of
           None \<Rightarrow> ''Unknown reason''
         | Some [] \<Rightarrow> ''Unknown reason''
         | Some (c # _) \<Rightarrow>
             (case finishReason c of
                None \<Rightarrow> ''Unknown reason''
              | Some f \<Rightarrow> if f = [] then ''Unknown reason'' else f))
      in ''Failed to generate image data in response. Reason: '' @ reason)"

text \<open>
  The \<open>try\<close> block of lines 504-530, given the history that ends with its request:
  \<open>Inl\<close> is the value it throws (the rejection of the call, the TypeError of line
  520 or the \<open>Error\<close> of line 529), \<open>Inr\<close> the image data it found.
\<close>

definition try_block :: "service \<Rightarrow> event list \<Rightarrow> string option + inline_data" where
  "try_block ai tr =
     (case ai tr of
        Rejects thrown \<Rightarrow> Inl thrown
      | Resolves r \<Rightarrow>
          (case find_image_part r of
             Inl msg \<Rightarrow> Inl (Some msg)
           | Inr imagePartResponse \<Rightarrow>
               (case truthy_image imagePartResponse of
                  Some d \<Rightarrow> Inr d
                | None \<Rightarrow> Inl (Some (no_image_message r)))))"

subsection \<open>The variables of \<open>generateFrames\<close>\<close>

record vars =
  currentImagePart :: imagePart
  allFrames :: "string option list"
  lastSuccessfulBase64 :: "string option"
  attempt :: nat
  delay :: nat
  success :: bool
  newBase64Data :: "string option"
  newMimeType :: "string option"
  trace :: "event list"

text \<open>
  A piece of \<open>generateFrames\<close> either completes with the variables it leaves, or
  throws an error (its message) out of the function; the variables are then the ones
  at the throw, of which only the history can still be observed.
\<close>

datatype completion = Normal vars | Throws string vars

fun vars_of :: "completion \<Rightarrow> vars" where
  "vars_of (Normal st) = st"
| "vars_of (Throws message st) = st"

text \<open>
  Line 533 reads \<open>error.message.includes\<close> without a guard: on a thrown value without
  a string message this is a TypeError (its V8 message is used), thrown inside the
  \<open>catch\<close> block and so out of the loops and of \<open>generateFrames\<close>. A rejection with
  \<open>null\<close> or \<open>undefined\<close> itself throws in the same line, with another text, and is
  not told apart from it.
\<close>

definition includes_undefined_message :: string where
  "includes_undefined_message = ''Cannot read properties of undefined (reading 'includes')''"

text \<open>The \<open>catch\<close> block, lines 531-548.\<close>

definition catch_block :: "nat \<Rightarrow> string option \<Rightarrow> vars \<Rightarrow> completion" where
  "catch_block i error st0 =
     (let st = st0\<lparr>attempt := attempt st0 + 1\<rparr> in
      case error of
        None \<Rightarrow> Throws includes_undefined_message st
      | Some message \<Rightarrow>
          if isRateLimit message then
            if attempt st \<ge> maxRetries then
              Normal (st\<lparr>trace := trace st @ [ConsoleErrorMaxRetries (i + 1) message],
                         newBase64Data := lastSuccessfulBase64 st,
                         success := True\<rparr>)
            else
              Normal (st\<lparr>trace := trace st @
                           [ConsoleWarnRateLimit (i + 1) (delay st) (attempt st), Wait (delay st)],
                         delay := delay st * 2\<rparr>)
          else
            Normal (st\<lparr>trace := trace st @ [ConsoleErrorOther (i + 1) message],
                       newBase64Data := lastSuccessfulBase64 st,
                       success := True\<rparr>))"

text \<open>Line 505. \<open>toStr\<close> is the string conversion of the template literal.\<close>

definition generationPrompt :: "('p \<Rightarrow> string) \<Rightarrow> 'p \<Rightarrow> string" where
  "generationPrompt toStr p =
     toStr p @ ''. IMPORTANT: The background and all elements, except for the object being animated, MUST remain identical to the input image. Do not change the scene, lighting, or style.''"

text \<open>One run of the body of the \<open>while\<close> loop, lines 504-548.\<close>

definition attempt_once :: "('p \<Rightarrow> string) \<Rightarrow> service \<Rightarrow> 'p list \<Rightarrow> nat \<Rightarrow> vars \<Rightarrow> completion" where
  "attempt_once toStr ai prompts i st0 =
     (let st = st0\<lparr>trace := trace st0 @ [Request (currentImagePart st0) (generationPrompt toStr (prompts ! i))]\<rparr>
      in case try_block ai (trace st) of
           Inr d \<Rightarrow>
             Normal (st\<lparr>newBase64Data := data d,
                        newMimeType := mimeType d,
                        lastSuccessfulBase64 := data d,
                        success := True\<rparr>)
         | Inl error \<Rightarrow> catch_block i error st)"

text \<open>The \<open>while\<close> loop of line 503.\<close>

function while_loop :: "('p \<Rightarrow> string) \<Rightarrow> service \<Rightarrow> 'p list \<Rightarrow> nat \<Rightarrow> vars \<Rightarrow> completion" where
  "while_loop toStr ai prompts i st =
     (if attempt st < maxRetries \<and> \<not> success st
      then (case attempt_once toStr ai prompts i st of
              Normal st' \<Rightarrow> while_loop toStr ai prompts i st'
            | Throws message st' \<Rightarrow> Throws message st')
      else Normal st)"
  by pat_completeness auto
termination
  by (relation "measure (\<lambda>(toStr, ai, prompts, i, st).
        if success st then 0 else Suc (maxRetries - attempt st))")
     (auto simp: attempt_once_def catch_block_def Let_def split: sum.splits option.splits if_splits)

declare while_loop.simps [simp del]

text \<open>The body of the \<open>for\<close> loop, lines 494-556.\<close>

definition frame_body :: "('p \<Rightarrow> string) \<Rightarrow> service \<Rightarrow> 'p list \<Rightarrow> nat \<Rightarrow> vars \<Rightarrow> completion" where
  "frame_body toStr ai prompts i st0 =
     (let st1 = st0\<lparr>trace := trace st0 @ [LoadingMessage (i + 2) (length prompts + 1)],
                     attempt := 0,
                     delay := 2000,
                     success := False,
                     newBase64Data := None,
                     newMimeType := mimeType (inlineData (currentImagePart st0))\<rparr>
      in case while_loop toStr ai prompts i st1 of
           Throws message st2 \<Rightarrow> Throws message st2
         | Normal st2 \<Rightarrow>
             (let st3 = (if \<not> success st2 then st2\<lparr>newBase64Data := lastSuccessfulBase64 st2\<rparr> else st2)
              in Normal (st3\<lparr>allFrames := allFrames st3 @ [newBase64Data st3],
                            currentImagePart := base64ToGenerativePart (newBase64Data st3) (newMimeType st3)\<rparr>)))"

text \<open>
  Lines 489-491. The fields of the loop-local variables are set at the start of
  every iteration; their initial values here are never read.
\<close>

definition init_vars :: "imagePart \<Rightarrow> vars" where
  "init_vars initialImagePart =
     \<lparr>currentImagePart = initialImagePart,
      allFrames = [],
      lastSuccessfulBase64 = data (inlineData initialImagePart),
      attempt = 0, delay = 2000, success = False,
      newBase64Data = None, newMimeType = None,
      trace = []\<rparr>"

text \<open>
  The \<open>for\<close> loop of line 493 after its first \<open>k\<close> iterations: an iteration runs
  when the ones before it completed, and a throw ends the loop.
\<close>

definition next_frame :: "('p \<Rightarrow> string) \<Rightarrow> service \<Rightarrow> 'p list \<Rightarrow> nat \<Rightarrow> completion \<Rightarrow> completion" where
  "next_frame toStr ai prompts i c =
     (case c of
        Normal st \<Rightarrow> frame_body toStr ai prompts i st
      | Throws message st \<Rightarrow> Throws message st)"

definition chain_state :: "('p \<Rightarrow> string) \<Rightarrow> service \<Rightarrow> imagePart \<Rightarrow> 'p list \<Rightarrow> nat \<Rightarrow> completion" where
  "chain_state toStr ai initialImagePart prompts k =
     fold (next_frame toStr ai prompts) [0..<k] (Normal (init_vars initialImagePart))"

text \<open>
  Lines 488-559: \<open>Inr\<close> is the list the promise resolves with, \<open>Inl\<close> the message of
  the error it rejects with.
\<close>

definition generateFrames :: "('p \<Rightarrow> string) \<Rightarrow> service \<Rightarrow> imagePart \<Rightarrow> 'p list \<Rightarrow> string + string option list" where
  "generateFrames toStr ai initialImagePart prompts =
     (case chain_state toStr ai initialImagePart prompts (length prompts) of
        Normal st \<Rightarrow> Inr (allFrames st)
      | Throws message st \<Rightarrow> Inl message)"

subsection \<open>Observations of a run\<close>

text \<open>
  The events of frame \<open>k\<close> (counted from 1, as the console lines count): what the
  \<open>k\<close>-th iteration of the \<open>for\<close> loop appends to the history.
\<close>

definition frame_events :: "('p \<Rightarrow> string) \<Rightarrow> service \<Rightarrow> imagePart \<Rightarrow> 'p list \<Rightarrow> nat \<Rightarrow> event list" where
  "frame_events toStr ai initialImagePart prompts k =
     drop (length (trace (vars_of (chain_state toStr ai initialImagePart prompts (k - 1)))))
       (trace (vars_of (chain_state toStr ai initialImagePart prompts k)))"

text \<open>The image parts and the prompt texts of the requests in a history.\<close>

fun request_inputs :: "event list \<Rightarrow> imagePart list" where
  "request_inputs [] = []"
| "request_inputs (Request img txt # es) = img # request_inputs es"
| "request_inputs (e # es) = request_inputs es"

fun request_texts :: "event list \<Rightarrow> string list" where
  "request_texts [] = []"
| "request_texts (Request img txt # es) = txt # request_texts es"
| "request_texts (e # es) = request_texts es"

text \<open>
  A frame used the fallback when one of the two \<open>console.error\<close> branches ran:
  line 535 (rate-limit retries exhausted) or line 544 (any other error).
\<close>

fun is_fallback :: "event \<Rightarrow> bool" where
  "is_fallback (ConsoleErrorMaxRetries n message) = True"
| "is_fallback (ConsoleErrorOther n message) = True"
| "is_fallback e = False"

definition fallback_used :: "event list \<Rightarrow> bool" where
  "fallback_used es = list_ex is_fallback es"

text \<open>
  What the \<open>try\<close> block made of each request of the history \<open>tr\<close>, in order, when
  \<open>pre\<close> is the history before \<open>tr\<close>.
\<close>

fun answers :: "service \<Rightarrow> event list \<Rightarrow> event list \<Rightarrow> (string option + inline_data) list" where
  "answers ai pre [] = []"
| "answers ai pre (Request img t # tr) =
     try_block ai (pre @ [Request img t]) # answers ai (pre @ [Request img t]) tr"
| "answers ai pre (e # tr) = answers ai (pre @ [e]) tr"

definition is_image :: "string option + inline_data \<Rightarrow> bool" where
  "is_image a = (case a of Inr d \<Rightarrow> True | Inl thrown \<Rightarrow> False)"

text \<open>The attempts and the timer waits of a history, in order.\<close>

datatype tick = Attempt | Pause nat

fun timing :: "event list \<Rightarrow> tick list" where
  "timing [] = []"
| "timing (Request img txt # es) = Attempt # timing es"
| "timing (Wait ms # es) = Pause ms # timing es"
| "timing (e # es) = timing es"

text \<open>
  A scripted service for concrete runs: the \<open>n\<close>-th request of a run gets the
  \<open>n\<close>-th answer of the script, and every request past the script is rejected.
\<close>

definition scripted :: "outcome list \<Rightarrow> service" where
  "scripted script tr =
     (let n = length (request_inputs tr) - 1
      in if n < length script then script ! n else Rejects (Some ''offline''))"

definition image_response :: "string \<Rightarrow> outcome" where
  "image_response b =
     Resolves \<lparr>candidates = Some [\<lparr>content = Some \<lparr>parts = Some
       [\<lparr>part_text = Some ''ok'', part_inlineData = None\<rparr>,
        \<lparr>part_text = None, part_inlineData = Some \<lparr>data = Some b, mimeType = Some ''image/png''\<rparr>\<rparr>]\<rparr>,
       finishReason = Some ''STOP''\<rparr>]\<rparr>"

definition photo :: imagePart where
  "photo = \<lparr>inlineData = \<lparr>data = Some ''AAAA'', mimeType = Some ''image/jpeg''\<rparr>\<rparr>"

subsection \<open>Variables at the end of an iteration\<close>

text \<open>
  The variables while the retry loop of an iteration runs, after \<open>a\<close> failed attempts
  (history \<open>new\<close> appended, \<open>d\<close> the next delay), and at the end of the iteration.
\<close>

definition retrying :: "vars \<Rightarrow> event list \<Rightarrow> nat \<Rightarrow> nat \<Rightarrow> vars" where
  "retrying st new a d =
     st\<lparr>trace := trace st @ new, attempt := a, delay := d, success := False,
        newBase64Data := None,
        newMimeType := mimeType (inlineData (currentImagePart st))\<rparr>"

definition finish :: "vars \<Rightarrow> vars" where
  "finish st2 =
     (let st3 = (if \<not> success st2 then st2\<lparr>newBase64Data := lastSuccessfulBase64 st2\<rparr> else st2)
      in st3\<lparr>allFrames := allFrames st3 @ [newBase64Data st3],
              currentImagePart := base64ToGenerativePart (newBase64Data st3) (newMimeType st3)\<rparr>)"

definition frame_result ::
  "vars \<Rightarrow> event list \<Rightarrow> nat \<Rightarrow> nat \<Rightarrow> string option \<Rightarrow> string option \<Rightarrow> string option \<Rightarrow> vars" where
  "frame_result st new a d payload mt lastOk =
     st\<lparr>currentImagePart := base64ToGenerativePart payload mt,
        allFrames := allFrames st @ [payload],
        lastSuccessfulBase64 := lastOk,
        attempt := a, delay := d, success := True,
        newBase64Data := payload, newMimeType := mt,
        trace := trace st @ new\<rparr>"

text \<open>The end of an iteration, lines 551-556, after the retry loop completed or threw.\<close>

definition complete_frame :: "completion \<Rightarrow> completion" where
  "complete_frame c =
     (case c of
        Normal st2 \<Rightarrow> Normal (finish st2)
      | Throws message st2 \<Rightarrow> Throws message st2)"

text \<open>What one iteration, started with the variables \<open>st\<close>, appends to the history.\<close>

definition frame_trace :: "('p \<Rightarrow> string) \<Rightarrow> service \<Rightarrow> 'p list \<Rightarrow> nat \<Rightarrow> vars \<Rightarrow> event list" where
  "frame_trace toStr ai prompts i st =
     drop (length (trace st)) (trace (vars_of (frame_body toStr ai prompts i st)))"

text \<open>
  The history with which iteration \<open>i\<close>, started with the variables \<open>st\<close>, asks the
  service for the \<open>n\<close>-th time (\<open>n\<close> = 1, 2, 3): the second and the third request
  come after the warning and the wait of lines 539-540.
\<close>

definition attempt_history :: "('p \<Rightarrow> string) \<Rightarrow> 'p list \<Rightarrow> nat \<Rightarrow> vars \<Rightarrow> nat \<Rightarrow> event list" where
  "attempt_history toStr prompts i st n =
     (let L = LoadingMessage (i + 2) (length prompts + 1);
          R = Request (currentImagePart st) (toStr (prompts ! i) @ ''. IMPORTANT: The background and all elements, except for the object being animated, MUST remain identical to the input image. Do not change the scene, lighting, or style.'');
          W1 = ConsoleWarnRateLimit (i + 1) 2000 1;
          W2 = ConsoleWarnRateLimit (i + 1) 4000 2
      in trace st @
         (if n = 1 then [L, R]
          else if n = 2 then [L, R, W1, Wait 2000, R]
          else [L, R, W1, Wait 2000, R, W2, Wait 4000, R]))"

subsection \<open>Text responses: trimming and the extraction pattern\<close>

text \<open>
  \<open>String.prototype.trim\<close> removes white space and line terminators at both ends;
  among 8-bit characters these are TAB, LF, VT, FF, CR, space and NBSP. They are also
  what \<open>\s\<close> matches.
\<close>

definition is_space :: "char \<Rightarrow> bool" where
  "is_space c = (c \<in> {CHR 0x09, CHR 0x0A, CHR 0x0B, CHR 0x0C, CHR 0x0D, CHR 0x20, CHR 0xA0})"

definition trim :: "string \<Rightarrow> string" where
  "trim s = rev (dropWhile is_space (rev (dropWhile is_space s)))"

text \<open>
  The regular expressions of lines 437 and 469 use literals, the classes \<open>[\s\S]\<close>
  (any character) and \<open>.\<close> (any character but a line terminator), lazy and greedy
  stars of a class, two capture groups, sequence and alternation.
\<close>

datatype cclass = AnyChar | Dot

datatype regex =
    Lit string
  | LazyStar cclass
  | GreedyStar cclass
  | Group nat regex
  | Seq regex regex
  | Alt regex regex

fun cmatches :: "cclass \<Rightarrow> char \<Rightarrow> bool" where
  "cmatches AnyChar c = True"
| "cmatches Dot c = (c \<noteq> CHR 0x0A \<and> c \<noteq> CHR 0x0D)"

text \<open>The captures of groups 1 and 2; \<open>None\<close> is \<open>undefined\<close>.\<close>

type_synonym caps = "string option \<times> string option"

fun set_cap :: "nat \<Rightarrow> string \<Rightarrow> caps \<Rightarrow> caps" where
  "set_cap i s (g1, g2) = (if i = 1 then (Some s, g2) else (g1, Some s))"

text \<open>
  The backtracking matcher of ECMAScript, in its own continuation-passing style:
  \<open>k\<close> is tried on what is left of the input and the first success wins. A lazy star
  tries the continuation before it takes one more character, a greedy star after.
\<close>

fun lazy_star :: "cclass \<Rightarrow> (string \<Rightarrow> 'r option) \<Rightarrow> string \<Rightarrow> 'r option" where
  "lazy_star c k [] = k []"
| "lazy_star c k (x # xs) =
     (case k (x # xs) of
        Some r \<Rightarrow> Some r
      | None \<Rightarrow> if cmatches c x then lazy_star c k xs else None)"

fun greedy_star :: "cclass \<Rightarrow> (string \<Rightarrow> 'r option) \<Rightarrow> string \<Rightarrow> 'r option" where
  "greedy_star c k [] = k []"
| "greedy_star c k (x # xs) =
     (if cmatches c x
      then (case greedy_star c k xs of Some r \<Rightarrow> Some r | None \<Rightarrow> k (x # xs))
      else k (x # xs))"

fun rmatch :: "regex \<Rightarrow> string \<Rightarrow> caps \<Rightarrow> (string \<Rightarrow> caps \<Rightarrow> 'r option) \<Rightarrow> 'r option" where
  "rmatch (Lit l) s cs k = (if prefix l s then k (drop (length l) s) cs else None)"
| "rmatch (LazyStar c) s cs k = lazy_star c (\<lambda>s'. k s' cs) s"
| "rmatch (GreedyStar c) s cs k = greedy_star c (\<lambda>s'. k s' cs) s"
| "rmatch (Group i r) s cs k =
     rmatch r s cs (\<lambda>s' cs'. k s' (set_cap i (take (length s - length s') s) cs'))"
| "rmatch (Seq r1 r2) s cs k = rmatch r1 s cs (\<lambda>s' cs'. rmatch r2 s' cs' k)"
| "rmatch (Alt r1 r2) s cs k =
     (case rmatch r1 s cs k of Some x \<Rightarrow> Some x | None \<Rightarrow> rmatch r2 s cs k)"

definition match_here :: "regex \<Rightarrow> string \<Rightarrow> caps option" where
  "match_here r s = rmatch r s (None, None) (\<lambda>s' cs. Some cs)"

text \<open>
  \<open>String.prototype.match\<close> with a regular expression without the \<open>g\<close> flag: the
  match at the leftmost start index that has one.
\<close>

fun str_match :: "regex \<Rightarrow> string \<Rightarrow> caps option" where
  "str_match r [] = match_here r []"
| "str_match r (x # xs) =
     (case match_here r (x # xs) of Some cs \<Rightarrow> Some cs | None \<Rightarrow> str_match r xs)"

text \<open>The first alternative of both patterns: a fenced block labelled json.\<close>

definition fence_regex :: regex where
  "fence_regex = Seq (Lit ''```json\<newline>'') (Seq (Group 1 (LazyStar AnyChar)) (Lit ''\<newline>```''))"

text \<open>Line 437.\<close>

definition detect_regex :: regex where
  "detect_regex =
     Alt fence_regex
       (Group 2 (Seq (Lit ''['') (Seq (LazyStar AnyChar) (Seq (Lit ''{'') (Seq (GreedyStar Dot)
          (Seq (Lit ''}'') (Seq (LazyStar AnyChar) (Lit '']''))))))))"

text \<open>Line 469.\<close>

definition prompts_regex :: regex where
  "prompts_regex =
     Alt fence_regex (Group 2 (Seq (Lit ''['') (Seq (LazyStar AnyChar) (Lit '']''))))"

text \<open>
  Lines 434-440 and 466-472: the text handed to \<open>JSON.parse\<close>. Without a match it is
  the trimmed text; with a match it is \<open>jsonMatch[1] || jsonMatch[2]\<close>, which is
  \<open>undefined\<close> when the fence matched with an empty interior.
\<close>

definition extract_json :: "regex \<Rightarrow> string \<Rightarrow> string option" where
  "extract_json re text =
     (let jsonText = trim text
      in case str_match re jsonText of
           None \<Rightarrow> Some jsonText
         | Some (g1, g2) \<Rightarrow>
             (case g1 of
                None \<Rightarrow> g2
              | Some s \<Rightarrow> if s = [] then g2 else Some s))"


subsection \<open>Parsed JSON and the two text operations\<close>

datatype json =
    JNull
  | JBool bool
  | JNum real
  | JStr string
  | JArr "json list"
  | JObj "(string \<times> json) list"

text \<open>
  \<open>JSON.parse\<close> is a parameter \<open>parse\<close> of the operations: \<open>None\<close> when it throws.
  It converts its argument to a string first, so \<open>undefined\<close> is parsed as the text
  \<open>undefined\<close>.
\<close>

definition js_string :: "string option \<Rightarrow> string" where
  "js_string v = (case v of None \<Rightarrow> ''undefined'' | Some s \<Rightarrow> s)"

text \<open>
  \<open>Array.isArray\<close> (lines 450 and 482); the two operations below decide it by the
  case distinction on the parsed value.
\<close>

fun isArray :: "json \<Rightarrow> bool" where
  "isArray (JArr xs) = True"
| "isArray v = False"

text \<open>
  Lines 434-453, after the awaited call of line 426: \<open>Inl\<close> is the message of an
  error thrown by the call or by reading \<open>response.text\<close>, \<open>Inr\<close> is
  \<open>response.text\<close>. The result is the message of the thrown error, or the array
  returned.
\<close>

definition detectObjects :: "(string \<Rightarrow> json option) \<Rightarrow> string + string \<Rightarrow> string + json list" where
  "detectObjects parse answer =
     (case answer of
        Inl message \<Rightarrow> Inl message
      | Inr text \<Rightarrow>
          (case parse (js_string (extract_json detect_regex text)) of
             None \<Rightarrow> Inl ''Received an invalid response from the AI when detecting objects. Please try a different image.''
           | Some parsedResponse \<Rightarrow>
               (case parsedResponse of
                  JArr xs \<Rightarrow> Inr xs
                | _ \<Rightarrow> Inl ''Failed to detect objects in the required format.'')))"

text \<open>Lines 466-485, after the awaited call of line 459.\<close>

definition generatePrompts :: "(string \<Rightarrow> json option) \<Rightarrow> string + string \<Rightarrow> string + json list" where
  "generatePrompts parse answer =
     (case answer of
        Inl message \<Rightarrow> Inl message
      | Inr text \<Rightarrow>
          (case parse (js_string (extract_json prompts_regex text)) of
             None \<Rightarrow> Inl ''Received an invalid response from the AI when generating prompts.''
           | Some parsedResponse \<Rightarrow>
               (case parsedResponse of
                  JArr xs \<Rightarrow>
                    if xs = [] then Inl ''Failed to generate prompts in the required format.''
                    else Inr xs
                | _ \<Rightarrow> Inl ''Failed to generate prompts in the required format.'')))"

subsection \<open>The session state and the two handlers\<close>

text \<open>
  An uploaded file, as \<open>fileToGenerativePart\<close> (lines 12-22) reads it: its MIME type
  and the base64 payload of its data URL (the part after the comma).
\<close>

record uploaded_file =
  file_type :: string
  file_base64 :: "string option"

definition fileToGenerativePart :: "uploaded_file \<Rightarrow> imagePart" where
  "fileToGenerativePart f = \<lparr>inlineData = \<lparr>data = file_base64 f, mimeType = Some (file_type f)\<rparr>\<rparr>"

text \<open>
  The React state that the two handlers write (lines 248-258). \<open>uploadedImage\<close> is
  the uploaded file (its object URL is not modelled); \<open>None\<close> is \<open>null\<close>.
\<close>

record app_state =
  uploadedImage :: "uploaded_file option"
  detectedObjects :: "json list"
  animationPrompts :: "json list"
  generatedFrames :: "string option list"
  isLoading :: bool
  loadingMessage :: string
  error :: "string option"
  selectedObject :: "json option"
  detectionComplete :: bool

text \<open>JavaScript truthiness of a parsed value, for \<open>!selectedObject\<close> in line 396.\<close>

fun js_truthy :: "json \<Rightarrow> bool" where
  "js_truthy JNull = False"
| "js_truthy (JBool b) = b"
| "js_truthy (JNum n) = (n \<noteq> 0)"
| "js_truthy (JStr s) = (s \<noteq> [])"
| "js_truthy (JArr xs) = True"
| "js_truthy (JObj kvs) = True"

text \<open>
  Lines 373-393, with the answer of the service to the one request of
  \<open>detectObjects\<close>. The state is the one after the \<open>finally\<close> block.
\<close>

definition runObjectDetection :: "(string \<Rightarrow> json option) \<Rightarrow> string + string \<Rightarrow> app_state \<Rightarrow> app_state" where
  "runObjectDetection parse answer st0 =
     (let st = st0\<lparr>loadingMessage := ''Analyzing image to find prominent objects...''\<rparr>;
          st' =
            (case detectObjects parse answer of
               Inr objects \<Rightarrow>
                 (case objects of
                    first # _ \<Rightarrow>
                      st\<lparr>detectedObjects := objects,
                         selectedObject := Some first,
                         detectionComplete := True\<rparr>
                  | [] \<Rightarrow>
                      st\<lparr>error := Some ''Sorry, no distinct objects could be identified in the image. Please try another one.''\<rparr>)
             | Inl message \<Rightarrow> st\<lparr>error := Some message\<rparr>)
      in st'\<lparr>isLoading := False, loadingMessage := []\<rparr>)"

text \<open>
  Lines 395-421, with the answer of the service to the one request of
  \<open>generatePrompts\<close> and the image service that \<open>generateFrames\<close> calls. An error
  thrown by either is caught in line 414 and its message is stored. The loading
  messages set on the way are overwritten by the \<open>finally\<close> block.
\<close>

definition handleGenerateAnimation ::
  "(string \<Rightarrow> json option) \<Rightarrow> (json \<Rightarrow> string) \<Rightarrow> string + string \<Rightarrow> service \<Rightarrow> app_state \<Rightarrow> app_state" where
  "handleGenerateAnimation parse toStr answer ai st0 =
     (case (selectedObject st0, uploadedImage st0) of
        (Some obj, Some uploaded) \<Rightarrow>
          if \<not> js_truthy obj then st0\<lparr>error := Some ''Please select an object to animate.''\<rparr>
          else
            (let st = st0\<lparr>isLoading := True, error := None\<rparr>;
                 imagePart = fileToGenerativePart uploaded;
                 initialFrameBase64 = data (inlineData imagePart);
                 st' =
                   (case generatePrompts parse answer of
                      Inl message \<Rightarrow> st\<lparr>error := Some message\<rparr>
                    | Inr prompts \<Rightarrow>
                        (case generateFrames toStr ai imagePart prompts of
                           Inl message \<Rightarrow> st\<lparr>error := Some message\<rparr>
                         | Inr subsequentFrames \<Rightarrow>
                             st\<lparr>animationPrompts := JStr ''Original Image'' # prompts,
                                generatedFrames := initialFrameBase64 # subsequentFrames\<rparr>))
             in st'\<lparr>isLoading := False, loadingMessage := []\<rparr>)
      | _ \<Rightarrow> st0\<lparr>error := Some ''Please select an object to animate.''\<rparr>)"

text \<open>Concrete data for the runs below.\<close>

definition six_objects_text :: string where
  "six_objects_text = ''[{\"name\":\"a\",\"boundingBox\":{\"x\":0,\"y\":0,\"width\":1,\"height\":1}},{\"name\":\"b\",\"boundingBox\":{\"x\":0,\"y\":0,\"width\":1,\"height\":1}},{\"name\":\"c\",\"boundingBox\":{\"x\":0,\"y\":0,\"width\":1,\"height\":1}},{\"name\":\"d\",\"boundingBox\":{\"x\":0,\"y\":0,\"width\":1,\"height\":1}},{\"name\":\"e\",\"boundingBox\":{\"x\":0,\"y\":0,\"width\":1,\"height\":1}},{\"name\":\"f\",\"boundingBox\":{\"x\":0,\"y\":0,\"width\":1,\"height\":1}}]''"

definition unit_box_object :: "string \<Rightarrow> json" where
  "unit_box_object n =
     JObj [(''name'', JStr n),
           (''boundingBox'', JObj [(''x'', JNum 0), (''y'', JNum 0), (''width'', JNum 1), (''height'', JNum 1)])]"

definition six_objects :: "json list" where
  "six_objects = map unit_box_object [''a'', ''b'', ''c'', ''d'', ''e'', ''f'']"

definition cat_file :: uploaded_file where
  "cat_file = \<lparr>file_type = ''image/jpeg'', file_base64 = Some ''AAAA''\<rparr>"

definition start_state :: app_state where
  "start_state =
     \<lparr>uploadedImage = Some cat_file, detectedObjects = [], animationPrompts = [],
      generatedFrames = [], isLoading = True, loadingMessage = [], error = None,
      selectedObject = None, detectionComplete = False\<rparr>"

section \<open>Lemmas\<close>

subsection \<open>The retry loop, unfolded\<close>

lemma while_stop:
  "\<not> (attempt st < maxRetries \<and> \<not> success st) \<Longrightarrow> while_loop toStr ai prompts i st = Normal st"
  by (subst while_loop.simps) auto

lemma while_step:
  "attempt st < maxRetries \<Longrightarrow> \<not> success st \<Longrightarrow>
   while_loop toStr ai prompts i st =
   (case attempt_once toStr ai prompts i st of
      Normal st' \<Rightarrow> while_loop toStr ai prompts i st'
    | Throws message st' \<Rightarrow> Throws message st')"
  by (subst while_loop.simps) simp

lemma frame_body_retrying:
  "frame_body toStr ai prompts i st =
     complete_frame (while_loop toStr ai prompts i
       (retrying st [LoadingMessage (i + 2) (length prompts + 1)] 0 2000))"
  by (simp add: frame_body_def complete_frame_def finish_def retrying_def Let_def split: completion.splits)

lemma attempt_once_retrying:
  "attempt_once toStr ai prompts i (retrying st new a d) =
    (case try_block ai (trace st @ new @ [Request (currentImagePart st) (generationPrompt toStr (prompts ! i))]) of
       Inr x \<Rightarrow> Normal ((retrying st (new @ [Request (currentImagePart st) (generationPrompt toStr (prompts ! i))]) a d)
                 \<lparr>newBase64Data := data x, newMimeType := mimeType x, lastSuccessfulBase64 := data x, success := True\<rparr>)
     | Inl None \<Rightarrow>
         Throws includes_undefined_message
           (retrying st (new @ [Request (currentImagePart st) (generationPrompt toStr (prompts ! i))]) (a + 1) d)
     | Inl (Some m) \<Rightarrow>
         if \<not> isRateLimit m then
           Normal ((retrying st (new @ [Request (currentImagePart st) (generationPrompt toStr (prompts ! i)), ConsoleErrorOther (i + 1) m]) (a + 1) d)
             \<lparr>newBase64Data := lastSuccessfulBase64 st, success := True\<rparr>)
         else if maxRetries \<le> a + 1 then
           Normal ((retrying st (new @ [Request (currentImagePart st) (generationPrompt toStr (prompts ! i)), ConsoleErrorMaxRetries (i + 1) m]) (a + 1) d)
             \<lparr>newBase64Data := lastSuccessfulBase64 st, success := True\<rparr>)
         else Normal (retrying st (new @ [Request (currentImagePart st) (generationPrompt toStr (prompts ! i)),
                 ConsoleWarnRateLimit (i + 1) d (a + 1), Wait d]) (a + 1) (d * 2)))"
  by (simp add: attempt_once_def retrying_def catch_block_def Let_def split: sum.splits option.splits)

lemma finish_success:
  "finish ((retrying st new a d)\<lparr>newBase64Data := p, newMimeType := mt, lastSuccessfulBase64 := l, success := True\<rparr>)
     = frame_result st new a d p mt l"
  by (simp add: finish_def retrying_def frame_result_def Let_def)

lemma finish_fallback:
  "finish ((retrying st new a d)\<lparr>newBase64Data := lastSuccessfulBase64 st, success := True\<rparr>)
     = frame_result st new a d (lastSuccessfulBase64 st) (mimeType (inlineData (currentImagePart st))) (lastSuccessfulBase64 st)"
  by (simp add: finish_def retrying_def frame_result_def Let_def)

lemma retrying_sel:
  "attempt (retrying st new a d) = a" "success (retrying st new a d) = False"
  "trace (retrying st new a d) = trace st @ new"
  "currentImagePart (retrying st new a d) = currentImagePart st"
  "lastSuccessfulBase64 (retrying st new a d) = lastSuccessfulBase64 st"
  "allFrames (retrying st new a d) = allFrames st"
  by (simp_all add: retrying_def)

lemma frame_loop:
  assumes "a < maxRetries"
  shows "complete_frame (while_loop toStr ai prompts i (retrying st new a d)) =
    (case try_block ai (trace st @ new @ [Request (currentImagePart st) (generationPrompt toStr (prompts ! i))]) of
       Inr x \<Rightarrow> Normal (frame_result st (new @ [Request (currentImagePart st) (generationPrompt toStr (prompts ! i))]) a d (data x) (mimeType x) (data x))
     | Inl None \<Rightarrow>
         Throws includes_undefined_message
           (retrying st (new @ [Request (currentImagePart st) (generationPrompt toStr (prompts ! i))]) (a + 1) d)
     | Inl (Some m) \<Rightarrow>
         if \<not> isRateLimit m then
           Normal (frame_result st (new @ [Request (currentImagePart st) (generationPrompt toStr (prompts ! i)), ConsoleErrorOther (i + 1) m]) (a + 1) d
             (lastSuccessfulBase64 st) (mimeType (inlineData (currentImagePart st))) (lastSuccessfulBase64 st))
         else if maxRetries \<le> a + 1 then
           Normal (frame_result st (new @ [Request (currentImagePart st) (generationPrompt toStr (prompts ! i)), ConsoleErrorMaxRetries (i + 1) m]) (a + 1) d
             (lastSuccessfulBase64 st) (mimeType (inlineData (currentImagePart st))) (lastSuccessfulBase64 st))
         else complete_frame (while_loop toStr ai prompts i (retrying st (new @ [Request (currentImagePart st) (generationPrompt toStr (prompts ! i)),
                 ConsoleWarnRateLimit (i + 1) d (a + 1), Wait d]) (a + 1) (d * 2))))"
proof -
  let ?R = "Request (currentImagePart st) (generationPrompt toStr (prompts ! i))"
  have step: "while_loop toStr ai prompts i (retrying st new a d) =
      (case attempt_once toStr ai prompts i (retrying st new a d) of
         Normal st' \<Rightarrow> while_loop toStr ai prompts i st'
       | Throws message st' \<Rightarrow> Throws message st')"
    using assms by (simp add: while_step retrying_sel)
  show ?thesis
  proof (cases "try_block ai (trace st @ new @ [?R])")
    case (Inr x)
    then show ?thesis
      by (simp add: step attempt_once_retrying while_stop finish_success retrying_sel complete_frame_def)
  next
    case (Inl thrown)
    show ?thesis
    proof (cases thrown)
      case None
      with Inl show ?thesis
        by (simp add: step attempt_once_retrying complete_frame_def)
    next
      case (Some m)
      with Inl show ?thesis
        by (simp add: step attempt_once_retrying while_stop finish_fallback retrying_sel complete_frame_def)
    qed
  qed
qed

text \<open>
  One iteration of the \<open>for\<close> loop as a decision tree over the answers to its (at
  most three) requests.
\<close>

lemma frame_body_unfold:
  "frame_body toStr ai prompts i st =
    (let L = LoadingMessage (i + 2) (length prompts + 1);
         R = Request (currentImagePart st) (generationPrompt toStr (prompts ! i));
         W1 = ConsoleWarnRateLimit (i + 1) 2000 1;
         W2 = ConsoleWarnRateLimit (i + 1) 4000 2;
         mt = mimeType (inlineData (currentImagePart st));
         ok = lastSuccessfulBase64 st
     in case try_block ai (trace st @ [L, R]) of
          Inr d \<Rightarrow> Normal (frame_result st [L, R] 0 2000 (data d) (mimeType d) (data d))
        | Inl None \<Rightarrow> Throws includes_undefined_message (retrying st [L, R] 1 2000)
        | Inl (Some m1) \<Rightarrow>
            (if \<not> isRateLimit m1
             then Normal (frame_result st [L, R, ConsoleErrorOther (i + 1) m1] 1 2000 ok mt ok)
             else
               (case try_block ai (trace st @ [L, R, W1, Wait 2000, R]) of
                  Inr d \<Rightarrow> Normal (frame_result st [L, R, W1, Wait 2000, R] 1 4000 (data d) (mimeType d) (data d))
                | Inl None \<Rightarrow> Throws includes_undefined_message (retrying st [L, R, W1, Wait 2000, R] 2 4000)
                | Inl (Some m2) \<Rightarrow>
                    (if \<not> isRateLimit m2
                     then Normal (frame_result st [L, R, W1, Wait 2000, R, ConsoleErrorOther (i + 1) m2] 2 4000 ok mt ok)
                     else
                       (case try_block ai (trace st @ [L, R, W1, Wait 2000, R, W2, Wait 4000, R]) of
                          Inr d \<Rightarrow>
                            Normal (frame_result st [L, R, W1, Wait 2000, R, W2, Wait 4000, R] 2 8000
                              (data d) (mimeType d) (data d))
                        | Inl None \<Rightarrow>
                            Throws includes_undefined_message
                              (retrying st [L, R, W1, Wait 2000, R, W2, Wait 4000, R] 3 8000)
                        | Inl (Some m3) \<Rightarrow>
                            (if \<not> isRateLimit m3
                             then Normal (frame_result st
                               [L, R, W1, Wait 2000, R, W2, Wait 4000, R, ConsoleErrorOther (i + 1) m3]
                               3 8000 ok mt ok)
                             else Normal (frame_result st
                               [L, R, W1, Wait 2000, R, W2, Wait 4000, R, ConsoleErrorMaxRetries (i + 1) m3]
                               3 8000 ok mt ok)))))))"
  by (simp add: frame_body_retrying frame_loop maxRetries_def Let_def numeral_2_eq_2 numeral_3_eq_3
      split: sum.splits option.splits)

subsection \<open>Facts about one iteration\<close>

lemma frame_result_sel:
  "trace (frame_result st new a d p mt l) = trace st @ new"
  "allFrames (frame_result st new a d p mt l) = allFrames st @ [p]"
  "lastSuccessfulBase64 (frame_result st new a d p mt l) = l"
  "currentImagePart (frame_result st new a d p mt l) = base64ToGenerativePart p mt"
  by (simp_all add: frame_result_def)

lemma try_block_None: "try_block ai tr = Inl None \<longleftrightarrow> ai tr = Rejects None"
  by (simp add: try_block_def split: outcome.splits sum.splits option.splits)

lemma frame_trace_extends:
  "trace (vars_of (frame_body toStr ai prompts i st)) = trace st @ frame_trace toStr ai prompts i st"
  by (simp add: frame_trace_def frame_body_unfold Let_def frame_result_sel retrying_sel
      split: sum.splits option.splits)

lemma frame_normal:
  assumes "frame_body toStr ai prompts i st = Normal st'"
  shows "allFrames st' = allFrames st @ [lastSuccessfulBase64 st']"
    and "data (inlineData (currentImagePart st')) = lastSuccessfulBase64 st'"
    and "fallback_used (frame_trace toStr ai prompts i st) \<Longrightarrow>
         lastSuccessfulBase64 st' = lastSuccessfulBase64 st"
    and "\<not> fallback_used (frame_trace toStr ai prompts i st) \<Longrightarrow>
         \<exists>d. try_block ai (trace st') = Inr d \<and> lastSuccessfulBase64 st' = data d"
    and "\<forall>a\<in>set (answers ai (trace st) (frame_trace toStr ai prompts i st)). \<not> is_image a \<Longrightarrow>
         lastSuccessfulBase64 st' = lastSuccessfulBase64 st"
  using assms
  by (auto simp: frame_trace_def fallback_used_def frame_body_unfold Let_def frame_result_sel
      base64ToGenerativePart_def is_image_def split: sum.splits option.splits if_splits)

lemma frame_throws:
  assumes "frame_body toStr ai prompts i st = Throws e st'"
  shows "e = includes_undefined_message" and "ai (trace st') = Rejects None"
    and "currentImagePart st' = currentImagePart st"
    and "lastSuccessfulBase64 st' = lastSuccessfulBase64 st"
    and "allFrames st' = allFrames st"
    and "\<not> fallback_used (frame_trace toStr ai prompts i st)"
  using assms
  by (auto simp: frame_trace_def fallback_used_def frame_body_unfold Let_def retrying_sel
      try_block_None split: sum.splits option.splits if_splits)

lemma frame_total:
  assumes "\<forall>tr. ai tr \<noteq> Rejects None"
  shows "\<exists>st'. frame_body toStr ai prompts i st = Normal st'"
  using assms
  by (simp add: frame_body_unfold Let_def try_block_None [symmetric] split: sum.splits option.splits)

lemma frame_request_inputs:
  "request_inputs (frame_trace toStr ai prompts i st) \<noteq> [] \<and>
   set (request_inputs (frame_trace toStr ai prompts i st)) = {currentImagePart st}"
  by (simp add: frame_trace_def frame_body_unfold Let_def frame_result_sel retrying_sel
      split: sum.splits option.splits)

lemma frame_request_texts:
  "request_texts (frame_trace toStr ai prompts i st) \<noteq> [] \<and>
   set (request_texts (frame_trace toStr ai prompts i st)) = {generationPrompt toStr (prompts ! i)}"
  by (simp add: frame_trace_def frame_body_unfold Let_def frame_result_sel retrying_sel
      split: sum.splits option.splits)

lemma frame_timing:
  "timing (frame_trace toStr ai prompts i st) = [Attempt] \<or>
   timing (frame_trace toStr ai prompts i st) = [Attempt, Pause 2000, Attempt] \<or>
   timing (frame_trace toStr ai prompts i st) = [Attempt, Pause 2000, Attempt, Pause 4000, Attempt]"
  by (simp add: frame_trace_def frame_body_unfold Let_def frame_result_sel retrying_sel
      split: sum.splits option.splits)

subsection \<open>Facts about the chain\<close>

lemma chain_state_0: "chain_state toStr ai init prompts 0 = Normal (init_vars init)"
  by (simp add: chain_state_def)

lemma chain_state_Suc:
  "chain_state toStr ai init prompts (Suc k) =
     next_frame toStr ai prompts k (chain_state toStr ai init prompts k)"
  by (simp add: chain_state_def)

lemma chain_step:
  "chain_state toStr ai init prompts k = Normal st \<Longrightarrow>
   chain_state toStr ai init prompts (Suc k) = frame_body toStr ai prompts k st"
  by (simp add: chain_state_Suc next_frame_def)

lemma chain_before:
  "chain_state toStr ai init prompts (Suc k) = Normal st' \<Longrightarrow>
   \<exists>st. chain_state toStr ai init prompts k = Normal st \<and> frame_body toStr ai prompts k st = Normal st'"
  by (simp add: chain_state_Suc next_frame_def split: completion.splits)

lemma frame_events_Suc:
  "chain_state toStr ai init prompts k = Normal st \<Longrightarrow>
   frame_events toStr ai init prompts (Suc k) = frame_trace toStr ai prompts k st"
  by (simp add: frame_events_def frame_trace_def chain_step)

lemma chain_trace_Suc:
  "chain_state toStr ai init prompts k = Normal st \<Longrightarrow>
   trace (vars_of (chain_state toStr ai init prompts (Suc k))) =
     trace st @ frame_events toStr ai init prompts (Suc k)"
  by (simp add: frame_events_Suc chain_step frame_trace_extends)

lemma chain_length_allFrames:
  "chain_state toStr ai init prompts k = Normal st \<Longrightarrow> length (allFrames st) = k"
proof (induction k arbitrary: st)
  case 0
  then show ?case by (auto simp: chain_state_0 init_vars_def)
next
  case (Suc k)
  obtain st0 where st0: "chain_state toStr ai init prompts k = Normal st0"
      and fb: "frame_body toStr ai prompts k st0 = Normal st"
    using chain_before [OF Suc.prems] by blast
  show ?case
    using frame_normal(1) [OF fb] Suc.IH [OF st0] by simp
qed

lemma chain_reached:
  "chain_state toStr ai init prompts n = Normal stn \<Longrightarrow> k \<le> n \<Longrightarrow>
   \<exists>st. chain_state toStr ai init prompts k = Normal st \<and> allFrames st = take k (allFrames stn)"
proof (induction n arbitrary: stn)
  case 0
  then show ?case by (auto simp: chain_state_0 init_vars_def)
next
  case (Suc n)
  obtain st where st: "chain_state toStr ai init prompts n = Normal st"
      and fb: "frame_body toStr ai prompts n st = Normal stn"
    using chain_before [OF Suc.prems(1)] by blast
  have len: "length (allFrames st) = n"
    using st by (rule chain_length_allFrames)
  show ?case
  proof (cases "k = Suc n")
    case True
    have "length (allFrames stn) = Suc n"
      using Suc.prems(1) by (rule chain_length_allFrames)
    with True Suc.prems(1) show ?thesis by simp
  next
    case False
    then have "k \<le> n" using Suc.prems(2) by simp
    from Suc.IH [OF st this] obtain stk where
      "chain_state toStr ai init prompts k = Normal stk" "allFrames stk = take k (allFrames st)"
      by blast
    moreover have "take k (allFrames stn) = take k (allFrames st)"
      using frame_normal(1) [OF fb] len \<open>k \<le> n\<close> by simp
    ultimately show ?thesis by simp
  qed
qed

lemma chain_current:
  "chain_state toStr ai init prompts k = Normal st \<Longrightarrow>
   data (inlineData (currentImagePart st)) = lastSuccessfulBase64 st"
proof (cases k)
  case 0
  assume "chain_state toStr ai init prompts k = Normal st"
  with 0 show ?thesis by (auto simp: chain_state_0 init_vars_def)
next
  case (Suc n)
  assume "chain_state toStr ai init prompts k = Normal st"
  with Suc obtain st0 where "frame_body toStr ai prompts n st0 = Normal st"
    using chain_before by blast
  then show ?thesis by (rule frame_normal(2))
qed


lemma chain_total:
  assumes "\<forall>tr. ai tr \<noteq> Rejects None"
  shows "\<exists>st. chain_state toStr ai init prompts k = Normal st"
proof (induction k)
  case 0
  show ?case by (simp add: chain_state_0)
next
  case (Suc k)
  then obtain st where "chain_state toStr ai init prompts k = Normal st" by blast
  then show ?case
    using frame_total [OF assms, of toStr prompts k st] by (simp add: chain_step)
qed

lemma chain_throws:
  "chain_state toStr ai init prompts k = Throws e st \<Longrightarrow>
   e = includes_undefined_message \<and> ai (trace st) = Rejects None"
proof (induction k)
  case 0
  then show ?case by (simp add: chain_state_0)
next
  case (Suc k)
  show ?case
  proof (cases "chain_state toStr ai init prompts k")
    case (Normal st0)
    then have "frame_body toStr ai prompts k st0 = Throws e st"
      using Suc.prems by (simp add: chain_step)
    then show ?thesis
      using frame_throws(1,2) by blast
  next
    case (Throws e0 st0)
    then show ?thesis
      using Suc by (simp add: chain_state_Suc next_frame_def)
  qed
qed

lemma generateFrames_Inr:
  "generateFrames toStr ai init prompts = Inr fs \<longleftrightarrow>
   (\<exists>st. chain_state toStr ai init prompts (length prompts) = Normal st \<and> allFrames st = fs)"
  by (simp add: generateFrames_def split: completion.splits)

lemma generateFrames_length:
  "generateFrames toStr ai init prompts = Inr fs \<Longrightarrow> length fs = length prompts"
  by (auto simp: generateFrames_Inr chain_length_allFrames)

lemma generateFrames_total:
  assumes "\<forall>tr. ai tr \<noteq> Rejects None"
  shows "\<exists>fs. generateFrames toStr ai init prompts = Inr fs \<and> length fs = length prompts"
  using chain_total [OF assms, of toStr init prompts "length prompts"]
  by (auto simp: generateFrames_def chain_length_allFrames)

lemma generateFrames_take:
  assumes "generateFrames toStr ai init prompts = Inr fs" and "k \<le> length prompts"
    and "chain_state toStr ai init prompts k = Normal st"
  shows "allFrames st = take k fs"
  using assms chain_reached [of toStr ai init prompts "length prompts" _ k]
  by (auto simp: generateFrames_Inr)

lemma generateFrames_reached:
  assumes "generateFrames toStr ai init prompts = Inr fs" and "k \<le> length prompts"
  shows "\<exists>st. chain_state toStr ai init prompts k = Normal st \<and> allFrames st = take k fs"
  using assms chain_reached [of toStr ai init prompts "length prompts" _ k]
  by (auto simp: generateFrames_Inr)



subsection \<open>Frames that the service fails\<close>

lemma attempt_history_simps:
  "attempt_history toStr prompts i st 1 =
     trace st @ [LoadingMessage (i + 2) (length prompts + 1),
                 Request (currentImagePart st) (generationPrompt toStr (prompts ! i))]"
  "attempt_history toStr prompts i st 2 =
     trace st @ [LoadingMessage (i + 2) (length prompts + 1),
                 Request (currentImagePart st) (generationPrompt toStr (prompts ! i)),
                 ConsoleWarnRateLimit (i + 1) 2000 1, Wait 2000,
                 Request (currentImagePart st) (generationPrompt toStr (prompts ! i))]"
  "attempt_history toStr prompts i st 3 =
     trace st @ [LoadingMessage (i + 2) (length prompts + 1),
                 Request (currentImagePart st) (generationPrompt toStr (prompts ! i)),
                 ConsoleWarnRateLimit (i + 1) 2000 1, Wait 2000,
                 Request (currentImagePart st) (generationPrompt toStr (prompts ! i)),
                 ConsoleWarnRateLimit (i + 1) 4000 2, Wait 4000,
                 Request (currentImagePart st) (generationPrompt toStr (prompts ! i))]"
  by (simp_all add: attempt_history_def generationPrompt_def Let_def)



lemma frame_third_fails:
  assumes "try_block ai (attempt_history toStr prompts i st 1) = Inl (Some m1)" and "isRateLimit m1"
    and "try_block ai (attempt_history toStr prompts i st 2) = Inl (Some m2)" and "isRateLimit m2"
    and "try_block ai (attempt_history toStr prompts i st 3) = Inl (Some m3)"
  shows "frame_body toStr ai prompts i st =
      Normal (frame_result st
        [LoadingMessage (i + 2) (length prompts + 1),
         Request (currentImagePart st) (generationPrompt toStr (prompts ! i)),
         ConsoleWarnRateLimit (i + 1) 2000 1, Wait 2000,
         Request (currentImagePart st) (generationPrompt toStr (prompts ! i)),
         ConsoleWarnRateLimit (i + 1) 4000 2, Wait 4000,
         Request (currentImagePart st) (generationPrompt toStr (prompts ! i)),
         (if isRateLimit m3 then ConsoleErrorMaxRetries (i + 1) m3 else ConsoleErrorOther (i + 1) m3)] 3 8000
        (lastSuccessfulBase64 st) (mimeType (inlineData (currentImagePart st))) (lastSuccessfulBase64 st))"
  using assms unfolding attempt_history_simps by (simp add: frame_body_unfold Let_def)

lemma frame_first_rate_limited:
  assumes "try_block ai (attempt_history toStr prompts i st 1) = Inl (Some m1)" and "isRateLimit m1"
  shows "take 3 (timing (frame_trace toStr ai prompts i st)) = [Attempt, Pause 2000, Attempt]"
    and "take 5 (frame_trace toStr ai prompts i st) =
        [LoadingMessage (i + 2) (length prompts + 1),
         Request (currentImagePart st) (generationPrompt toStr (prompts ! i)),
         ConsoleWarnRateLimit (i + 1) 2000 1, Wait 2000,
         Request (currentImagePart st) (generationPrompt toStr (prompts ! i))]"
  using assms unfolding attempt_history_simps
  by (simp_all add: frame_trace_def frame_body_unfold Let_def frame_result_sel
      retrying_sel split: sum.splits option.splits)

lemma frame_second_rate_limited:
  assumes "try_block ai (attempt_history toStr prompts i st 1) = Inl (Some m1)" and "isRateLimit m1"
    and "try_block ai (attempt_history toStr prompts i st 2) = Inl (Some m2)" and "isRateLimit m2"
  shows "timing (frame_trace toStr ai prompts i st) = [Attempt, Pause 2000, Attempt, Pause 4000, Attempt]"
    and "take 8 (frame_trace toStr ai prompts i st) =
        [LoadingMessage (i + 2) (length prompts + 1),
         Request (currentImagePart st) (generationPrompt toStr (prompts ! i)),
         ConsoleWarnRateLimit (i + 1) 2000 1, Wait 2000,
         Request (currentImagePart st) (generationPrompt toStr (prompts ! i)),
         ConsoleWarnRateLimit (i + 1) 4000 2, Wait 4000,
         Request (currentImagePart st) (generationPrompt toStr (prompts ! i))]"
  using assms unfolding attempt_history_simps
  by (simp_all add: frame_trace_def frame_body_unfold Let_def frame_result_sel
      retrying_sel split: sum.splits option.splits)

lemma frame_fallback_facts:
  assumes "frame_body toStr ai prompts i st =
      Normal (frame_result st new a d (lastSuccessfulBase64 st) mt (lastSuccessfulBase64 st))"
  shows "frame_trace toStr ai prompts i st = new"
  using assms by (simp add: frame_trace_def frame_result_sel)

lemma chain_prompt_order:
  assumes "i < length prompts" and "chain_state toStr ai init prompts i = Normal st"
  shows "request_texts (frame_events toStr ai init prompts (Suc i)) \<noteq> []"
    and "set (request_texts (frame_events toStr ai init prompts (Suc i))) =
      {toStr (prompts ! i) @ ''. IMPORTANT: The background and all elements, except for the object being animated, MUST remain identical to the input image. Do not change the scene, lighting, or style.''}"
  using frame_request_texts [of toStr ai prompts i st]
  by (simp_all add: frame_events_Suc [OF assms(2)] generationPrompt_def)

section \<open>The claims about the frame chain\<close>

text \<open>
  In the statements below \<open>chain_state ... k\<close> is the \<open>for\<close> loop after \<open>k\<close> iterations:
  \<open>Normal st\<close> with the variables \<open>st\<close> at the start of iteration \<open>k + 1\<close>, or \<open>Throws\<close>
  when an iteration threw. \<open>frame_events ... k\<close> is what frame \<open>k\<close> (counted from 1)
  did. \<open>attempt_history ... (k - 1) st n\<close> is the history with which frame \<open>k\<close> asks
  the service for the \<open>n\<close>-th time, and \<open>try_block\<close> at that history is what the
  \<open>n\<close>-th attempt of the frame gets: \<open>Inr\<close> image data, or \<open>Inl\<close> the thrown value.
\<close>

text \<open>
  Claim C10 (loop invariant of the chain). Before the first iteration
  \<open>lastSuccessfulBase64\<close> and the data of \<open>currentImagePart\<close> are the data of the
  original image. Let iteration \<open>k + 1\<close> be reached, with the variables \<open>st\<close> at its
  start. Then the data of \<open>currentImagePart\<close> equals \<open>lastSuccessfulBase64\<close>, and the
  requests of the iteration (there is at least one) all carry \<open>currentImagePart\<close>.
  When the iteration completes, the invariant holds again; an iteration that fell
  back left \<open>lastSuccessfulBase64\<close> as it was, and one that did not set it to the
  image data found in the answer to its last request; the payload pushed for the
  frame, which is entry \<open>k\<close> of the list when the function returns one, is the data
  of the chain image, and every request of the next iteration carries that image.
  When no request is answered with a rejection without a string message, the
  iteration completes and the function returns one payload per prompt.
\<close>

theorem chain_invariant:
  assumes "k < length prompts" and "chain_state toStr ai init prompts k = Normal st"
  shows "chain_state toStr ai init prompts 0 = Normal (init_vars init) \<and>
    lastSuccessfulBase64 (init_vars init) = data (inlineData init) \<and>
    data (inlineData (currentImagePart (init_vars init))) = data (inlineData init) \<and>
    data (inlineData (currentImagePart st)) = lastSuccessfulBase64 st \<and>
    request_inputs (frame_events toStr ai init prompts (Suc k)) \<noteq> [] \<and>
    set (request_inputs (frame_events toStr ai init prompts (Suc k))) = {currentImagePart st} \<and>
    (\<forall>st'. chain_state toStr ai init prompts (Suc k) = Normal st' \<longrightarrow>
       data (inlineData (currentImagePart st')) = lastSuccessfulBase64 st' \<and>
       (fallback_used (frame_events toStr ai init prompts (Suc k)) \<longrightarrow>
          lastSuccessfulBase64 st' = lastSuccessfulBase64 st) \<and>
       (\<not> fallback_used (frame_events toStr ai init prompts (Suc k)) \<longrightarrow>
          (\<exists>d. try_block ai (trace st') = Inr d \<and> lastSuccessfulBase64 st' = data d)) \<and>
       allFrames st' = allFrames st @ [data (inlineData (currentImagePart st'))] \<and>
       length (allFrames st) = k \<and>
       (\<forall>fs. generateFrames toStr ai init prompts = Inr fs \<longrightarrow>
          fs ! k = data (inlineData (currentImagePart st'))) \<and>
       (Suc k < length prompts \<longrightarrow>
          request_inputs (frame_events toStr ai init prompts (Suc (Suc k))) \<noteq> [] \<and>
          (\<forall>img\<in>set (request_inputs (frame_events toStr ai init prompts (Suc (Suc k)))).
             img = currentImagePart st' \<and> data (inlineData img) = allFrames st' ! k))) \<and>
    ((\<forall>tr. ai tr \<noteq> Rejects None) \<longrightarrow>
       (\<exists>st'. chain_state toStr ai init prompts (Suc k) = Normal st') \<and>
       (\<exists>fs. generateFrames toStr ai init prompts = Inr fs \<and> length fs = length prompts))"
proof -
  have ev: "frame_events toStr ai init prompts (Suc k) = frame_trace toStr ai prompts k st"
    using assms(2) by (rule frame_events_Suc)
  have len: "length (allFrames st) = k"
    using assms(2) by (rule chain_length_allFrames)
  have start: "chain_state toStr ai init prompts 0 = Normal (init_vars init) \<and>
    lastSuccessfulBase64 (init_vars init) = data (inlineData init) \<and>
    data (inlineData (currentImagePart (init_vars init))) = data (inlineData init)"
    by (simp add: chain_state_0 init_vars_def)
  have cur: "data (inlineData (currentImagePart st)) = lastSuccessfulBase64 st"
    using assms(2) by (rule chain_current)
  have req: "request_inputs (frame_events toStr ai init prompts (Suc k)) \<noteq> [] \<and>
    set (request_inputs (frame_events toStr ai init prompts (Suc k))) = {currentImagePart st}"
    by (simp add: ev frame_request_inputs)
  have after: "data (inlineData (currentImagePart st')) = lastSuccessfulBase64 st' \<and>
       (fallback_used (frame_events toStr ai init prompts (Suc k)) \<longrightarrow>
          lastSuccessfulBase64 st' = lastSuccessfulBase64 st) \<and>
       (\<not> fallback_used (frame_events toStr ai init prompts (Suc k)) \<longrightarrow>
          (\<exists>d. try_block ai (trace st') = Inr d \<and> lastSuccessfulBase64 st' = data d)) \<and>
       allFrames st' = allFrames st @ [data (inlineData (currentImagePart st'))] \<and>
       length (allFrames st) = k \<and>
       (\<forall>fs. generateFrames toStr ai init prompts = Inr fs \<longrightarrow>
          fs ! k = data (inlineData (currentImagePart st'))) \<and>
       (Suc k < length prompts \<longrightarrow>
          request_inputs (frame_events toStr ai init prompts (Suc (Suc k))) \<noteq> [] \<and>
          (\<forall>img\<in>set (request_inputs (frame_events toStr ai init prompts (Suc (Suc k)))).
             img = currentImagePart st' \<and> data (inlineData img) = allFrames st' ! k))"
    if n: "chain_state toStr ai init prompts (Suc k) = Normal st'" for st'
  proof -
    have fb: "frame_body toStr ai prompts k st = Normal st'"
      using n by (simp add: chain_step [OF assms(2)])
    have c': "data (inlineData (currentImagePart st')) = lastSuccessfulBase64 st'"
      using fb by (rule frame_normal(2))
    have af: "allFrames st' = allFrames st @ [data (inlineData (currentImagePart st'))]"
      using frame_normal(1) [OF fb] by (simp add: c')
    have nth: "allFrames st' ! k = data (inlineData (currentImagePart st'))"
      by (simp add: af len nth_append)
    have gf: "fs ! k = data (inlineData (currentImagePart st'))"
      if "generateFrames toStr ai init prompts = Inr fs" for fs
    proof -
      have "allFrames st' = take (Suc k) fs"
        using that _ n by (rule generateFrames_take) (use assms(1) in simp)
      with nth show ?thesis by simp
    qed
    have nxt: "request_inputs (frame_events toStr ai init prompts (Suc (Suc k))) \<noteq> [] \<and>
          (\<forall>img\<in>set (request_inputs (frame_events toStr ai init prompts (Suc (Suc k)))).
             img = currentImagePart st' \<and> data (inlineData img) = allFrames st' ! k)"
      by (simp add: frame_events_Suc [OF n] frame_request_inputs nth)
    show ?thesis
      using c' af len gf nxt frame_normal(3) [OF fb] frame_normal(4) [OF fb]
      by (simp add: ev)
  qed
  have total: "(\<exists>st'. chain_state toStr ai init prompts (Suc k) = Normal st') \<and>
       (\<exists>fs. generateFrames toStr ai init prompts = Inr fs \<and> length fs = length prompts)"
    if "\<forall>tr. ai tr \<noteq> Rejects None"
    using chain_total [OF that] generateFrames_total [OF that] by blast
  show ?thesis
    using start cur req after total by blast
qed

theorem chain_invariant_witness:
  "(1::nat) < length [''a'', ''b'', ''c''] \<and>
   chain_state id (scripted [image_response ''BBBB'', Rejects (Some ''500''), image_response ''CCCC'']) photo
     [''a'', ''b'', ''c''] 1 =
     Normal (vars_of (chain_state id
       (scripted [image_response ''BBBB'', Rejects (Some ''500''), image_response ''CCCC'']) photo
       [''a'', ''b'', ''c''] 1)) \<and>
   data (inlineData (currentImagePart (vars_of (chain_state id
     (scripted [image_response ''BBBB'', Rejects (Some ''500''), image_response ''CCCC'']) photo
     [''a'', ''b'', ''c''] 1)))) =
   lastSuccessfulBase64 (vars_of (chain_state id
     (scripted [image_response ''BBBB'', Rejects (Some ''500''), image_response ''CCCC'']) photo
     [''a'', ''b'', ''c''] 1)) \<and>
   lastSuccessfulBase64 (vars_of (chain_state id
     (scripted [image_response ''BBBB'', Rejects (Some ''500''), image_response ''CCCC'']) photo
     [''a'', ''b'', ''c''] 1)) = Some ''BBBB'' \<and>
   generateFrames id (scripted [image_response ''BBBB'', Rejects (Some ''500''), image_response ''CCCC'']) photo
     [''a'', ''b'', ''c''] = Inr [Some ''BBBB'', Some ''BBBB'', Some ''CCCC''] \<and>
   map (\<lambda>img. data (inlineData img)) (request_inputs (frame_events id
     (scripted [image_response ''BBBB'', Rejects (Some ''500''), image_response ''CCCC'']) photo
     [''a'', ''b'', ''c''] 3)) = [Some ''BBBB'']"
proof -
  let ?ai = "scripted [image_response ''BBBB'', Rejects (Some ''500''), image_response ''CCCC'']"
  let ?ps = "[''a'', ''b'', ''c'']"
  have h1: "(1::nat) < length ?ps" by simp
  have h2: "chain_state id ?ai photo ?ps 1 = Normal (vars_of (chain_state id ?ai photo ?ps 1))"
    by code_simp
  have l: "lastSuccessfulBase64 (vars_of (chain_state id ?ai photo ?ps 1)) = Some ''BBBB''"
    by code_simp
  have v: "generateFrames id ?ai photo ?ps = Inr [Some ''BBBB'', Some ''BBBB'', Some ''CCCC'']"
    by code_simp
  have r: "map (\<lambda>img. data (inlineData img)) (request_inputs (frame_events id ?ai photo ?ps 3)) =
     [Some ''BBBB'']"
    by code_simp
  from chain_invariant [OF h1 h2]
  have "data (inlineData (currentImagePart (vars_of (chain_state id ?ai photo ?ps 1)))) =
      lastSuccessfulBase64 (vars_of (chain_state id ?ai photo ?ps 1))"
    by blast
  with h1 h2 l v r show ?thesis by blast
qed



text \<open>
  Claim C2 (chain length): the code does not meet it. Line 533 reads
  \<open>error.message.includes\<close> without a guard, inside the \<open>catch\<close> block. When the
  service rejects a request with a value that has no string message, the \<open>catch\<close>
  block itself throws a TypeError, which leaves both loops: \<open>generateFrames\<close> rejects
  and returns no list. In the first run below the service answers the request of
  the second of three frames that way: the function throws, frame 2 has made its one
  request and frame 3 none. In the second run the only frame is answered that way.
  (When every rejection carries a message the function returns one payload per
  prompt, lemma \<open>generateFrames_total\<close>, and the requests of frame \<open>i + 1\<close> carry the
  text of \<open>prompts[i]\<close>, lemma \<open>chain_prompt_order\<close>.)
\<close>

theorem rejection_without_message_throws:
  "generateFrames id (scripted [image_response ''BBBB'', Rejects None, image_response ''CCCC''])
     photo [''a'', ''b'', ''c''] = Inl includes_undefined_message \<and>
   frame_events id (scripted [image_response ''BBBB'', Rejects None, image_response ''CCCC''])
     photo [''a'', ''b'', ''c''] 2 =
     [LoadingMessage 3 4,
      Request (base64ToGenerativePart (Some ''BBBB'') (Some ''image/png'')) (generationPrompt id ''b'')] \<and>
   frame_events id (scripted [image_response ''BBBB'', Rejects None, image_response ''CCCC''])
     photo [''a'', ''b'', ''c''] 3 = [] \<and>
   generateFrames id (\<lambda>tr. Rejects None) photo [''a''] = Inl includes_undefined_message"
  by code_simp

text \<open>
  Claim C4 (backoff). Let frame \<open>k\<close> be reached with the variables \<open>st\<close>. Its attempts
  and timer waits are, in order, one of: one attempt; an attempt, a wait of 2000 ms,
  an attempt; or an attempt, a wait of 2000 ms, an attempt, a wait of 4000 ms, an
  attempt. So at most 3 attempts are made. When the first attempt gets a rate-limit
  error, the frame goes on with a wait of 2000 ms and a second attempt; when the
  second attempt gets one too, with a wait of 4000 ms and a third attempt, which is
  the last. When the third attempt gets a rate-limit error as well, the frame is
  exactly these three requests, the two warnings and waits and the \<open>console.error\<close>
  of line 535; it completes and its payload is the fallback \<open>lastSuccessfulBase64\<close>,
  which is also the data of the chain image after the frame. (\<open>Pause d\<close> is the
  \<open>setTimeout\<close> of line 540 with delay \<open>d\<close>; wall-clock time is not modelled.)
\<close>

theorem backoff_timing:
  assumes "1 \<le> k" and "k \<le> length prompts"
    and "chain_state toStr ai init prompts (k - 1) = Normal st"
  shows "(timing (frame_events toStr ai init prompts k) = [Attempt] \<or>
     timing (frame_events toStr ai init prompts k) = [Attempt, Pause 2000, Attempt] \<or>
     timing (frame_events toStr ai init prompts k) = [Attempt, Pause 2000, Attempt, Pause 4000, Attempt]) \<and>
    (\<forall>m1. try_block ai (attempt_history toStr prompts (k - 1) st 1) = Inl (Some m1) \<and> isRateLimit m1 \<longrightarrow>
       take 3 (timing (frame_events toStr ai init prompts k)) = [Attempt, Pause 2000, Attempt]) \<and>
    (\<forall>m1 m2. try_block ai (attempt_history toStr prompts (k - 1) st 1) = Inl (Some m1) \<and> isRateLimit m1 \<and>
       try_block ai (attempt_history toStr prompts (k - 1) st 2) = Inl (Some m2) \<and> isRateLimit m2 \<longrightarrow>
       timing (frame_events toStr ai init prompts k) = [Attempt, Pause 2000, Attempt, Pause 4000, Attempt]) \<and>
    (\<forall>m1 m2 m3. try_block ai (attempt_history toStr prompts (k - 1) st 1) = Inl (Some m1) \<and> isRateLimit m1 \<and>
       try_block ai (attempt_history toStr prompts (k - 1) st 2) = Inl (Some m2) \<and> isRateLimit m2 \<and>
       try_block ai (attempt_history toStr prompts (k - 1) st 3) = Inl (Some m3) \<and> isRateLimit m3 \<longrightarrow>
       frame_events toStr ai init prompts k =
         [LoadingMessage (k + 1) (length prompts + 1),
          Request (currentImagePart st) (generationPrompt toStr (prompts ! (k - 1))),
          ConsoleWarnRateLimit k 2000 1, Wait 2000,
          Request (currentImagePart st) (generationPrompt toStr (prompts ! (k - 1))),
          ConsoleWarnRateLimit k 4000 2, Wait 4000,
          Request (currentImagePart st) (generationPrompt toStr (prompts ! (k - 1))),
          ConsoleErrorMaxRetries k m3] \<and>
       (\<exists>st'. chain_state toStr ai init prompts k = Normal st' \<and>
          allFrames st' = allFrames st @ [lastSuccessfulBase64 st] \<and>
          data (inlineData (currentImagePart st')) = lastSuccessfulBase64 st) \<and>
       (\<forall>fs. generateFrames toStr ai init prompts = Inr fs \<longrightarrow> fs ! (k - 1) = lastSuccessfulBase64 st))"
proof -
  obtain i where k: "k = Suc i" and i: "i < length prompts"
    using assms(1,2) by (cases k) auto
  have st: "chain_state toStr ai init prompts i = Normal st"
    using assms(3) by (simp add: k)
  have ev: "frame_events toStr ai init prompts (Suc i) = frame_trace toStr ai prompts i st"
    using st by (rule frame_events_Suc)
  have shape: "timing (frame_trace toStr ai prompts i st) = [Attempt] \<or>
     timing (frame_trace toStr ai prompts i st) = [Attempt, Pause 2000, Attempt] \<or>
     timing (frame_trace toStr ai prompts i st) = [Attempt, Pause 2000, Attempt, Pause 4000, Attempt]"
    by (rule frame_timing)
  have one: "take 3 (timing (frame_trace toStr ai prompts i st)) = [Attempt, Pause 2000, Attempt]"
    if "try_block ai (attempt_history toStr prompts i st 1) = Inl (Some m1)" "isRateLimit m1" for m1
    using that by (rule frame_first_rate_limited(1))
  have two: "timing (frame_trace toStr ai prompts i st) = [Attempt, Pause 2000, Attempt, Pause 4000, Attempt]"
    if "try_block ai (attempt_history toStr prompts i st 1) = Inl (Some m1)" "isRateLimit m1"
      "try_block ai (attempt_history toStr prompts i st 2) = Inl (Some m2)" "isRateLimit m2" for m1 m2
    using that by (rule frame_second_rate_limited(1))
  have three: "frame_trace toStr ai prompts i st =
         [LoadingMessage (Suc i + 1) (length prompts + 1),
          Request (currentImagePart st) (generationPrompt toStr (prompts ! i)),
          ConsoleWarnRateLimit (Suc i) 2000 1, Wait 2000,
          Request (currentImagePart st) (generationPrompt toStr (prompts ! i)),
          ConsoleWarnRateLimit (Suc i) 4000 2, Wait 4000,
          Request (currentImagePart st) (generationPrompt toStr (prompts ! i)),
          ConsoleErrorMaxRetries (Suc i) m3] \<and>
       (\<exists>st'. chain_state toStr ai init prompts (Suc i) = Normal st' \<and>
          allFrames st' = allFrames st @ [lastSuccessfulBase64 st] \<and>
          data (inlineData (currentImagePart st')) = lastSuccessfulBase64 st) \<and>
       (\<forall>fs. generateFrames toStr ai init prompts = Inr fs \<longrightarrow> fs ! i = lastSuccessfulBase64 st)"
    if a: "try_block ai (attempt_history toStr prompts i st 1) = Inl (Some m1)" "isRateLimit m1"
      "try_block ai (attempt_history toStr prompts i st 2) = Inl (Some m2)" "isRateLimit m2"
      "try_block ai (attempt_history toStr prompts i st 3) = Inl (Some m3)" and r3: "isRateLimit m3"
    for m1 m2 m3
  proof -
    let ?new = "[LoadingMessage (Suc i + 1) (length prompts + 1),
          Request (currentImagePart st) (generationPrompt toStr (prompts ! i)),
          ConsoleWarnRateLimit (Suc i) 2000 1, Wait 2000,
          Request (currentImagePart st) (generationPrompt toStr (prompts ! i)),
          ConsoleWarnRateLimit (Suc i) 4000 2, Wait 4000,
          Request (currentImagePart st) (generationPrompt toStr (prompts ! i)),
          ConsoleErrorMaxRetries (Suc i) m3]"
    let ?st' = "frame_result st ?new 3 8000 (lastSuccessfulBase64 st)
        (mimeType (inlineData (currentImagePart st))) (lastSuccessfulBase64 st)"
    have fb: "frame_body toStr ai prompts i st = Normal ?st'"
      using frame_third_fails [OF a] r3 by simp
    have n: "chain_state toStr ai init prompts (Suc i) = Normal ?st'"
      using fb by (simp add: chain_step [OF st])
    have tr: "frame_trace toStr ai prompts i st = ?new"
      using fb by (simp add: frame_trace_def frame_result_sel)
    have af: "allFrames ?st' = allFrames st @ [lastSuccessfulBase64 st]"
      and cur: "data (inlineData (currentImagePart ?st')) = lastSuccessfulBase64 st"
      by (simp_all add: frame_result_sel base64ToGenerativePart_def)
    have gf: "fs ! i = lastSuccessfulBase64 st" if g: "generateFrames toStr ai init prompts = Inr fs" for fs
    proof -
      have "allFrames ?st' = take (Suc i) fs"
        using g _ n by (rule generateFrames_take) (use i in simp)
      moreover have "length (allFrames st) = i"
        using st by (rule chain_length_allFrames)
      ultimately show ?thesis
        using af by (simp add: take_Suc_conv_app_nth generateFrames_length [OF g] i)
    qed
    show ?thesis
      using tr n af cur gf by blast
  qed
  show ?thesis
    unfolding k diff_Suc_1 ev
    using shape one two three by blast
qed

theorem backoff_timing_witness:
  "(1::nat) \<le> 1 \<and> 1 \<le> length [''a'', ''b''] \<and>
   chain_state id
     (scripted [Rejects (Some ''429 Too Many Requests''), Rejects (Some ''RESOURCE_EXHAUSTED''),
                Rejects (Some ''got status: 429''), image_response ''CCCC''])
     photo [''a'', ''b''] (1 - 1) = Normal (init_vars photo) \<and>
   try_block
     (scripted [Rejects (Some ''429 Too Many Requests''), Rejects (Some ''RESOURCE_EXHAUSTED''),
                Rejects (Some ''got status: 429''), image_response ''CCCC''])
     (attempt_history id [''a'', ''b''] (1 - 1) (init_vars photo) 1) = Inl (Some ''429 Too Many Requests'') \<and>
   isRateLimit ''429 Too Many Requests'' \<and>
   try_block
     (scripted [Rejects (Some ''429 Too Many Requests''), Rejects (Some ''RESOURCE_EXHAUSTED''),
                Rejects (Some ''got status: 429''), image_response ''CCCC''])
     (attempt_history id [''a'', ''b''] (1 - 1) (init_vars photo) 2) = Inl (Some ''RESOURCE_EXHAUSTED'') \<and>
   isRateLimit ''RESOURCE_EXHAUSTED'' \<and>
   try_block
     (scripted [Rejects (Some ''429 Too Many Requests''), Rejects (Some ''RESOURCE_EXHAUSTED''),
                Rejects (Some ''got status: 429''), image_response ''CCCC''])
     (attempt_history id [''a'', ''b''] (1 - 1) (init_vars photo) 3) = Inl (Some ''got status: 429'') \<and>
   isRateLimit ''got status: 429'' \<and>
   timing (frame_events id
     (scripted [Rejects (Some ''429 Too Many Requests''), Rejects (Some ''RESOURCE_EXHAUSTED''),
                Rejects (Some ''got status: 429''), image_response ''CCCC''])
     photo [''a'', ''b''] 1) = [Attempt, Pause 2000, Attempt, Pause 4000, Attempt] \<and>
   frame_events id
     (scripted [Rejects (Some ''429 Too Many Requests''), Rejects (Some ''RESOURCE_EXHAUSTED''),
                Rejects (Some ''got status: 429''), image_response ''CCCC''])
     photo [''a'', ''b''] 1 =
     [LoadingMessage (1 + 1) (length [''a'', ''b''] + 1),
      Request (currentImagePart (init_vars photo)) (generationPrompt id ([''a'', ''b''] ! (1 - 1))),
      ConsoleWarnRateLimit 1 2000 1, Wait 2000,
      Request (currentImagePart (init_vars photo)) (generationPrompt id ([''a'', ''b''] ! (1 - 1))),
      ConsoleWarnRateLimit 1 4000 2, Wait 4000,
      Request (currentImagePart (init_vars photo)) (generationPrompt id ([''a'', ''b''] ! (1 - 1))),
      ConsoleErrorMaxRetries 1 ''got status: 429''] \<and>
   generateFrames id
     (scripted [Rejects (Some ''429 Too Many Requests''), Rejects (Some ''RESOURCE_EXHAUSTED''),
                Rejects (Some ''got status: 429''), image_response ''CCCC''])
     photo [''a'', ''b''] = Inr [Some ''AAAA'', Some ''CCCC'']"
proof -
  let ?ai = "scripted [Rejects (Some ''429 Too Many Requests''), Rejects (Some ''RESOURCE_EXHAUSTED''),
                Rejects (Some ''got status: 429''), image_response ''CCCC'']"
  let ?ps = "[''a'', ''b'']"
  let ?st = "init_vars photo"
  have h1: "(1::nat) \<le> 1" and h2: "1 \<le> length ?ps" by simp_all
  have h3: "chain_state id ?ai photo ?ps (1 - 1) = Normal ?st"
    by code_simp
  have a1: "try_block ?ai (attempt_history id ?ps (1 - 1) ?st 1) = Inl (Some ''429 Too Many Requests'')"
    by code_simp
  have r1: "isRateLimit ''429 Too Many Requests''"
    by code_simp
  have a2: "try_block ?ai (attempt_history id ?ps (1 - 1) ?st 2) = Inl (Some ''RESOURCE_EXHAUSTED'')"
    by code_simp
  have r2: "isRateLimit ''RESOURCE_EXHAUSTED''"
    by code_simp
  have a3: "try_block ?ai (attempt_history id ?ps (1 - 1) ?st 3) = Inl (Some ''got status: 429'')"
    by code_simp
  have r3: "isRateLimit ''got status: 429''"
    by code_simp
  have v: "generateFrames id ?ai photo ?ps = Inr [Some ''AAAA'', Some ''CCCC'']"
    by code_simp
  note b = backoff_timing [OF h1 h2 h3]
  have t: "timing (frame_events id ?ai photo ?ps 1) = [Attempt, Pause 2000, Attempt, Pause 4000, Attempt]"
    using b a1 r1 a2 r2 by blast
  have e: "frame_events id ?ai photo ?ps 1 =
     [LoadingMessage (1 + 1) (length ?ps + 1),
      Request (currentImagePart ?st) (generationPrompt id (?ps ! (1 - 1))),
      ConsoleWarnRateLimit 1 2000 1, Wait 2000,
      Request (currentImagePart ?st) (generationPrompt id (?ps ! (1 - 1))),
      ConsoleWarnRateLimit 1 4000 2, Wait 4000,
      Request (currentImagePart ?st) (generationPrompt id (?ps ! (1 - 1))),
      ConsoleErrorMaxRetries 1 ''got status: 429'']"
    using b a1 r1 a2 r2 a3 r3 by blast
  from h1 h2 h3 a1 r1 a2 r2 a3 r3 t e v show ?thesis by blast
qed



section \<open>Lemmas about the text operations\<close>

lemma rmatch_lit_seq:
  "rmatch (Seq (Lit l) r) s cs k = (if prefix l s then rmatch r (drop (length l) s) cs k else None)"
  by simp

text \<open>Both patterns start with a literal: the fence opener or the bracket.\<close>

lemma match_here_fail:
  assumes "\<not> prefix ''```json\<newline>'' s" and "\<not> prefix ''['' s"
  shows "match_here detect_regex s = None" and "match_here prompts_regex s = None"
  using assms by (simp_all add: match_here_def detect_regex_def prompts_regex_def fence_regex_def)

lemma str_match_skip:
  assumes "\<And>u1 u2. pre = u1 @ u2 \<Longrightarrow> u2 \<noteq> [] \<Longrightarrow> match_here r (u2 @ s) = None"
  shows "str_match r (pre @ s) = str_match r s"
  using assms
proof (induction pre)
  case Nil
  show ?case by simp
next
  case (Cons x pre)
  have "match_here r ((x # pre) @ s) = None"
    using Cons.prems [of "[]" "x # pre"] by simp
  moreover have "str_match r (pre @ s) = str_match r s"
  proof (rule Cons.IH)
    fix u1 u2
    assume "pre = u1 @ u2" and "u2 \<noteq> []"
    then show "match_here r (u2 @ s) = None"
      using Cons.prems [of "x # u1" u2] by simp
  qed
  ultimately show ?case by simp
qed

text \<open>Occurrences of a text in another, as \<open>str_includes\<close> finds them.\<close>

lemma str_includes_prefix: "prefix sub s \<Longrightarrow> str_includes s sub"
  by (cases s) auto

lemma str_includes_append: "str_includes u2 sub \<Longrightarrow> str_includes (u1 @ u2) sub"
  by (induction u1) auto

lemma not_includes_suffix:
  assumes "\<not> str_includes u sub" and "u = u1 @ u2"
  shows "\<not> prefix sub u2"
  using assms str_includes_append [of u2 sub u1] str_includes_prefix [of sub u2] by auto

text \<open>
  The fence opener has no occurrence that starts before it and runs into a following
  opener or bracket, and the closer none that runs into a following closer.
\<close>

lemma no_open_fence_before_fence:
  assumes "\<not> str_includes pre ''```json\<newline>''" and "pre = u1 @ u2" and "u2 \<noteq> []"
  shows "\<not> prefix ''```json\<newline>'' (u2 @ ''```json\<newline>'' @ rest)"
proof
  assume "prefix ''```json\<newline>'' (u2 @ ''```json\<newline>'' @ rest)"
  moreover have "\<not> prefix ''```json\<newline>'' u2"
    using assms(1,2) by (rule not_includes_suffix)
  ultimately show False
    using assms(3) by (auto simp: prefix_append Cons_eq_append_conv)
qed

lemma no_open_fence_before_bracket:
  assumes "\<not> str_includes pre ''```json\<newline>''" and "pre = u1 @ u2" and "u2 \<noteq> []"
  shows "\<not> prefix ''```json\<newline>'' (u2 @ ''['' @ rest)"
proof
  assume "prefix ''```json\<newline>'' (u2 @ ''['' @ rest)"
  moreover have "\<not> prefix ''```json\<newline>'' u2"
    using assms(1,2) by (rule not_includes_suffix)
  ultimately show False
    using assms(3) by (auto simp: prefix_append Cons_eq_append_conv)
qed

lemma lazy_star_hit: "k s = Some r \<Longrightarrow> lazy_star c k s = Some r"
  by (cases s) simp_all

lemma lazy_star_skip:
  assumes "\<And>u1 u2. u = u1 @ u2 \<Longrightarrow> u2 \<noteq> [] \<Longrightarrow> k (u2 @ v) = None"
  shows "lazy_star AnyChar k (u @ v) = lazy_star AnyChar k v"
  using assms
proof (induction u)
  case Nil
  show ?case by simp
next
  case (Cons x u)
  have "k ((x # u) @ v) = None"
    using Cons.prems [of "[]" "x # u"] by simp
  moreover have "lazy_star AnyChar k (u @ v) = lazy_star AnyChar k v"
  proof (rule Cons.IH)
    fix u1 u2
    assume "u = u1 @ u2" and "u2 \<noteq> []"
    then show "k (u2 @ v) = None"
      using Cons.prems [of "x # u1" u2] by simp
  qed
  ultimately show ?case by simp
qed

lemma lazy_star_find:
  assumes "\<And>u1 u2. u = u1 @ u2 \<Longrightarrow> u2 \<noteq> [] \<Longrightarrow> k (u2 @ v) = None"
    and "k v = Some r"
  shows "lazy_star AnyChar k (u @ v) = Some r"
  using assms by (simp add: lazy_star_skip lazy_star_hit)

lemma greedy_star_none:
  assumes "\<And>u1 u2. s = u1 @ u2 \<Longrightarrow> k u2 = None"
  shows "greedy_star c k s = None"
  using assms
proof (induction s)
  case Nil
  then show ?case by simp
next
  case (Cons x s)
  have "k (x # s) = None"
    using Cons.prems [of "[]" "x # s"] by simp
  moreover have "greedy_star c k s = None"
  proof (rule Cons.IH)
    fix u1 u2
    assume "s = u1 @ u2"
    then show "k u2 = None"
      using Cons.prems [of "x # u1" u2] by simp
  qed
  ultimately show ?case by simp
qed

lemma greedy_star_past:
  assumes "\<forall>x\<in>set u. cmatches c x" and "greedy_star c k v = Some r"
  shows "greedy_star c k (u @ v) = Some r"
  using assms by (induction u) simp_all

lemma no_prefix_without:
  assumes "x \<notin> set u" and "u \<noteq> []"
  shows "\<not> prefix [x] (u @ v)"
  using assms by (cases u) auto

lemma no_prefix_without_any:
  assumes "x \<notin> set s"
  shows "\<not> prefix [x] s"
  using assms by (cases s) auto

lemma no_close_fence_inside:
  assumes "\<not> str_includes body ''\<newline>```''" and "body = u1 @ u2" and "u2 \<noteq> []"
  shows "\<not> prefix ''\<newline>```'' (u2 @ ''\<newline>```'' @ post)"
proof
  assume "prefix ''\<newline>```'' (u2 @ ''\<newline>```'' @ post)"
  moreover have "\<not> prefix ''\<newline>```'' u2"
    using assms(1,2) by (rule not_includes_suffix)
  ultimately show False
    using assms(3) by (auto simp: prefix_append Cons_eq_append_conv)
qed


text \<open>The three shapes of the patterns, over any literals.\<close>

lemma rmatch_fence_shape:
  assumes "\<And>u1 u2. body = u1 @ u2 \<Longrightarrow> u2 \<noteq> [] \<Longrightarrow> \<not> prefix C (u2 @ C @ post)"
  shows "rmatch (Seq (Lit F) (Seq (Group 1 (LazyStar AnyChar)) (Lit C))) (F @ body @ C @ post) cs
           (\<lambda>s' cs'. Some cs') = Some (set_cap 1 body cs)"
proof -
  have "lazy_star AnyChar
      (\<lambda>s'. if prefix C s'
         then Some (set_cap 1 (take (length (body @ C @ post) - length s') (body @ C @ post)) cs)
         else None) (body @ C @ post) = Some (set_cap 1 body cs)"
  proof (rule lazy_star_find)
    fix u1 u2
    assume "body = u1 @ u2" and "u2 \<noteq> []"
    then show "(if prefix C (u2 @ C @ post)
         then Some (set_cap 1 (take (length (body @ C @ post) - length (u2 @ C @ post)) (body @ C @ post)) cs)
         else None) = None"
      using assms by simp
  next
    show "(if prefix C (C @ post)
         then Some (set_cap 1 (take (length (body @ C @ post) - length (C @ post)) (body @ C @ post)) cs)
         else None) = Some (set_cap 1 body cs)"
      by simp
  qed
  then show ?thesis by (simp cong: if_cong)
qed

lemma rmatch_bracket_shape:
  assumes "\<And>u1 u2. body = u1 @ u2 \<Longrightarrow> u2 \<noteq> [] \<Longrightarrow> \<not> prefix R (u2 @ R @ post)"
  shows "rmatch (Group 2 (Seq (Lit L) (Seq (LazyStar AnyChar) (Lit R)))) (L @ body @ R @ post) cs
           (\<lambda>s' cs'. Some cs') = Some (set_cap 2 (L @ body @ R) cs)"
proof -
  let ?s = "L @ body @ R @ post"
  have "lazy_star AnyChar
      (\<lambda>s'. if prefix R s'
         then Some (set_cap 2 (take (length ?s - length (drop (length R) s')) ?s) cs)
         else None) (body @ R @ post) = Some (set_cap 2 (L @ body @ R) cs)"
  proof (rule lazy_star_find)
    fix u1 u2
    assume "body = u1 @ u2" and "u2 \<noteq> []"
    then show "(if prefix R (u2 @ R @ post)
         then Some (set_cap 2 (take (length ?s - length (drop (length R) (u2 @ R @ post))) ?s) cs)
         else None) = None"
      using assms by simp
  next
    have "take (length ?s - length post) ?s = L @ body @ R"
      by simp
    then show "(if prefix R (R @ post)
         then Some (set_cap 2 (take (length ?s - length (drop (length R) (R @ post))) ?s) cs)
         else None) = Some (set_cap 2 (L @ body @ R) cs)"
      by simp
  qed
  then show ?thesis by (simp cong: if_cong)
qed

lemma rmatch_seq_lit_app: "rmatch (Seq (Lit l) r) (l @ s) cs k = rmatch r s cs k"
  by simp

lemma rmatch_seq_lit_fail: "\<not> prefix l s \<Longrightarrow> rmatch (Seq (Lit l) r) s cs k = None"
  by simp

lemma rmatch_lit_app: "rmatch (Lit l) (l @ s) cs k = k s cs"
  by simp

lemma rmatch_lit_fail: "\<not> prefix l s \<Longrightarrow> rmatch (Lit l) s cs k = None"
  by simp

lemma rmatch_lazy_seq_find:
  assumes "\<And>u1 u2. u = u1 @ u2 \<Longrightarrow> u2 \<noteq> [] \<Longrightarrow> rmatch r (u2 @ v) cs k = None"
    and "rmatch r v cs k = Some res"
  shows "rmatch (Seq (LazyStar AnyChar) r) (u @ v) cs k = Some res"
proof -
  have "lazy_star AnyChar (\<lambda>s'. rmatch r s' cs k) (u @ v) = Some res"
    using assms by (rule lazy_star_find)
  then show ?thesis by simp
qed

lemma rmatch_greedy_seq_last:
  assumes "\<forall>y\<in>set u. cmatches c y" and "cmatches c x"
    and "\<And>u1 u2. v = u1 @ u2 \<Longrightarrow> rmatch r u2 cs k = None"
    and "rmatch r (x # v) cs k = Some res"
  shows "rmatch (Seq (GreedyStar c) r) (u @ x # v) cs k = Some res"
proof -
  have "greedy_star c (\<lambda>s'. rmatch r s' cs k) v = None"
    using assms(3) by (rule greedy_star_none)
  then have "greedy_star c (\<lambda>s'. rmatch r s' cs k) (x # v) = Some res"
    using assms(2,4) by simp
  with assms(1) have "greedy_star c (\<lambda>s'. rmatch r s' cs k) (u @ x # v) = Some res"
    by (rule greedy_star_past)
  then show ?thesis by simp
qed

lemma rmatch_object_shape:
  assumes a: "\<And>u1 u2. a = u1 @ u2 \<Longrightarrow> u2 \<noteq> [] \<Longrightarrow> \<not> prefix Op (u2 @ Op @ b @ x # c @ R @ post)"
    and b: "\<forall>y\<in>set b. cmatches Dot y" and x: "cmatches Dot x"
    and later: "x \<notin> set (c @ R @ post)"
    and c: "\<And>u1 u2. c = u1 @ u2 \<Longrightarrow> u2 \<noteq> [] \<Longrightarrow> \<not> prefix R (u2 @ R @ post)"
  shows "rmatch (Group 2 (Seq (Lit L) (Seq (LazyStar AnyChar) (Seq (Lit Op) (Seq (GreedyStar Dot)
            (Seq (Lit [x]) (Seq (LazyStar AnyChar) (Lit R))))))))
           (L @ a @ Op @ b @ x # c @ R @ post) cs (\<lambda>s' cs'. Some cs') =
         Some (set_cap 2 (L @ a @ Op @ b @ x # c @ R) cs)"
proof -
  let ?s = "L @ a @ Op @ b @ x # c @ R @ post"
  let ?res = "set_cap 2 (L @ a @ Op @ b @ x # c @ R) cs"
  define KG :: "string \<Rightarrow> caps \<Rightarrow> caps option"
    where "KG = (\<lambda>s' cs'. Some (set_cap 2 (take (length ?s - length s') ?s) cs'))"
  let ?r5 = "Seq (LazyStar AnyChar) (Lit R)"
  let ?r4 = "Seq (Lit [x]) ?r5"
  let ?r3 = "Seq (GreedyStar Dot) ?r4"
  let ?r2 = "Seq (Lit Op) ?r3"
  let ?r1 = "Seq (LazyStar AnyChar) ?r2"
  have "take (length ?s - length post) ?s = L @ a @ Op @ b @ x # c @ R"
    by simp
  then have hit: "rmatch (Lit R) (R @ post) cs KG = Some ?res"
    by (simp only: rmatch_lit_app KG_def)
  have e5: "rmatch ?r5 (c @ R @ post) cs KG = Some ?res"
  proof (rule rmatch_lazy_seq_find)
    fix u1 u2
    assume "c = u1 @ u2" and "u2 \<noteq> []"
    then have "\<not> prefix R (u2 @ R @ post)" by (rule c)
    then show "rmatch (Lit R) (u2 @ R @ post) cs KG = None" by (rule rmatch_lit_fail)
  next
    show "rmatch (Lit R) (R @ post) cs KG = Some ?res" by (rule hit)
  qed
  have e4: "rmatch ?r4 (x # c @ R @ post) cs KG = Some ?res"
    using e5 rmatch_seq_lit_app [of "[x]" ?r5 "c @ R @ post" cs KG] by simp
  have e3: "rmatch ?r3 (b @ x # c @ R @ post) cs KG = Some ?res"
  proof (rule rmatch_greedy_seq_last)
    show "\<forall>y\<in>set b. cmatches Dot y" by (rule b)
    show "cmatches Dot x" by (rule x)
    show "rmatch ?r4 (x # c @ R @ post) cs KG = Some ?res" by (rule e4)
  next
    fix u1 u2
    assume "c @ R @ post = u1 @ u2"
    then have "set u2 \<subseteq> set (c @ R @ post)"
      by (metis set_append sup_ge2)
    with later have "x \<notin> set u2" by auto
    then have "\<not> prefix [x] u2" by (rule no_prefix_without_any)
    then show "rmatch ?r4 u2 cs KG = None" by (rule rmatch_seq_lit_fail)
  qed
  have e2: "rmatch ?r2 (Op @ b @ x # c @ R @ post) cs KG = Some ?res"
    using e3 by (simp only: rmatch_seq_lit_app)
  have e1: "rmatch ?r1 (a @ Op @ b @ x # c @ R @ post) cs KG = Some ?res"
  proof (rule rmatch_lazy_seq_find)
    fix u1 u2
    assume "a = u1 @ u2" and "u2 \<noteq> []"
    then have "\<not> prefix Op (u2 @ Op @ b @ x # c @ R @ post)" by (rule a)
    then show "rmatch ?r2 (u2 @ Op @ b @ x # c @ R @ post) cs KG = None" by (rule rmatch_seq_lit_fail)
  next
    show "rmatch ?r2 (Op @ b @ x # c @ R @ post) cs KG = Some ?res" by (rule e2)
  qed
  have e0: "rmatch (Seq (Lit L) ?r1) ?s cs KG = Some ?res"
    using e1 by (simp only: rmatch_seq_lit_app)
  have "rmatch (Group 2 (Seq (Lit L) ?r1)) ?s cs (\<lambda>s' cs'. Some cs') = rmatch (Seq (Lit L) ?r1) ?s cs KG"
    by (simp only: rmatch.simps(4) KG_def)
  with e0 show ?thesis by simp
qed

subsection \<open>What the two patterns take\<close>

lemma str_match_hit: "match_here r s = Some cs \<Longrightarrow> str_match r s = Some cs"
  by (cases s) simp_all

lemma skip_before_fence:
  assumes "CHR ''['' \<notin> set pre" and "\<not> str_includes pre ''```json\<newline>''"
  shows "str_match detect_regex (pre @ ''```json\<newline>'' @ rest) = str_match detect_regex (''```json\<newline>'' @ rest)"
    and "str_match prompts_regex (pre @ ''```json\<newline>'' @ rest) = str_match prompts_regex (''```json\<newline>'' @ rest)"
proof -
  have fail: "\<not> prefix ''```json\<newline>'' (u2 @ ''```json\<newline>'' @ rest) \<and> \<not> prefix ''['' (u2 @ ''```json\<newline>'' @ rest)"
    if "pre = u1 @ u2" and "u2 \<noteq> []" for u1 u2
  proof
    show "\<not> prefix ''```json\<newline>'' (u2 @ ''```json\<newline>'' @ rest)"
      using assms(2) that by (rule no_open_fence_before_fence)
    have "CHR ''['' \<notin> set u2"
      using assms(1) that(1) by simp
    then show "\<not> prefix ''['' (u2 @ ''```json\<newline>'' @ rest)"
      using that(2) by (rule no_prefix_without)
  qed
  show "str_match detect_regex (pre @ ''```json\<newline>'' @ rest) = str_match detect_regex (''```json\<newline>'' @ rest)"
    by (rule str_match_skip) (use fail in \<open>blast intro: match_here_fail(1)\<close>)
  show "str_match prompts_regex (pre @ ''```json\<newline>'' @ rest) = str_match prompts_regex (''```json\<newline>'' @ rest)"
    by (rule str_match_skip) (use fail in \<open>blast intro: match_here_fail(2)\<close>)
qed

lemma skip_before_bracket:
  assumes "CHR ''['' \<notin> set pre" and "\<not> str_includes pre ''```json\<newline>''"
  shows "str_match detect_regex (pre @ ''['' @ rest) = str_match detect_regex (''['' @ rest)"
    and "str_match prompts_regex (pre @ ''['' @ rest) = str_match prompts_regex (''['' @ rest)"
proof -
  have fail: "\<not> prefix ''```json\<newline>'' (u2 @ ''['' @ rest) \<and> \<not> prefix ''['' (u2 @ ''['' @ rest)"
    if "pre = u1 @ u2" and "u2 \<noteq> []" for u1 u2
  proof
    show "\<not> prefix ''```json\<newline>'' (u2 @ ''['' @ rest)"
      using assms(2) that by (rule no_open_fence_before_bracket)
    have "CHR ''['' \<notin> set u2"
      using assms(1) that(1) by simp
    then show "\<not> prefix ''['' (u2 @ ''['' @ rest)"
      using that(2) by (rule no_prefix_without)
  qed
  show "str_match detect_regex (pre @ ''['' @ rest) = str_match detect_regex (''['' @ rest)"
    by (rule str_match_skip) (use fail in \<open>blast intro: match_here_fail(1)\<close>)
  show "str_match prompts_regex (pre @ ''['' @ rest) = str_match prompts_regex (''['' @ rest)"
    by (rule str_match_skip) (use fail in \<open>blast intro: match_here_fail(2)\<close>)
qed

lemma str_match_none:
  assumes "CHR ''['' \<notin> set t" and "\<not> str_includes t ''```json\<newline>''"
  shows "str_match detect_regex t = None" and "str_match prompts_regex t = None"
proof -
  have fail: "\<not> prefix ''```json\<newline>'' (u2 @ []) \<and> \<not> prefix ''['' (u2 @ [])"
    if "t = u1 @ u2" for u1 u2
  proof
    show "\<not> prefix ''```json\<newline>'' (u2 @ [])"
      using not_includes_suffix [OF assms(2) that] by simp
    have "CHR ''['' \<notin> set u2"
      using assms(1) that by simp
    then show "\<not> prefix ''['' (u2 @ [])"
      using no_prefix_without_any [of "CHR ''[''" u2] by simp
  qed
  have e: "match_here detect_regex [] = None" "match_here prompts_regex [] = None"
    by (simp_all add: match_here_def detect_regex_def prompts_regex_def fence_regex_def)
  have "str_match detect_regex (t @ []) = str_match detect_regex []"
    by (rule str_match_skip) (use fail in \<open>blast intro: match_here_fail(1)\<close>)
  then show "str_match detect_regex t = None"
    using e by simp
  have "str_match prompts_regex (t @ []) = str_match prompts_regex []"
    by (rule str_match_skip) (use fail in \<open>blast intro: match_here_fail(2)\<close>)
  then show "str_match prompts_regex t = None"
    using e by simp
qed

lemma fence_taken:
  assumes "\<not> str_includes body ''\<newline>```''"
  shows "match_here detect_regex (''```json\<newline>'' @ body @ ''\<newline>```'' @ post) = Some (Some body, None)"
    and "match_here prompts_regex (''```json\<newline>'' @ body @ ''\<newline>```'' @ post) = Some (Some body, None)"
proof -
  have "rmatch fence_regex (''```json\<newline>'' @ body @ ''\<newline>```'' @ post) (None, None) (\<lambda>s' cs'. Some cs') =
      Some (set_cap 1 body (None, None))"
    unfolding fence_regex_def
  proof (rule rmatch_fence_shape)
    fix u1 u2
    assume "body = u1 @ u2" and "u2 \<noteq> []"
    with assms show "\<not> prefix ''\<newline>```'' (u2 @ ''\<newline>```'' @ post)"
      by (rule no_close_fence_inside)
  qed
  then show "match_here detect_regex (''```json\<newline>'' @ body @ ''\<newline>```'' @ post) = Some (Some body, None)"
    and "match_here prompts_regex (''```json\<newline>'' @ body @ ''\<newline>```'' @ post) = Some (Some body, None)"
    by (simp_all add: match_here_def detect_regex_def prompts_regex_def)
qed

lemma fence_fails_at_bracket:
  "rmatch fence_regex (''['' @ s) cs k = None"
  by (simp add: fence_regex_def)

lemma bracket_taken:
  assumes "CHR '']'' \<notin> set body"
  shows "match_here prompts_regex (''['' @ body @ '']'' @ post) = Some (None, Some (''['' @ body @ '']''))"
proof -
  have "rmatch (Group 2 (Seq (Lit ''['') (Seq (LazyStar AnyChar) (Lit '']''))))
      (''['' @ body @ '']'' @ post) (None, None) (\<lambda>s' cs'. Some cs') =
      Some (set_cap 2 (''['' @ body @ '']'') (None, None))"
  proof (rule rmatch_bracket_shape)
    fix u1 u2
    assume "body = u1 @ u2" and "u2 \<noteq> []"
    with assms show "\<not> prefix '']'' (u2 @ '']'' @ post)"
      by (intro no_prefix_without) auto
  qed
  then show ?thesis
    using fence_fails_at_bracket [of "body @ '']'' @ post" "(None, None)" "\<lambda>s' cs'. Some cs'"]
    by (simp add: match_here_def prompts_regex_def)
qed

lemma object_array_taken:
  assumes "CHR ''{'' \<notin> set a"
    and "CHR 0x0A \<notin> set b" and "CHR 0x0D \<notin> set b"
    and "CHR ''}'' \<notin> set c" and "CHR '']'' \<notin> set c" and "CHR ''}'' \<notin> set post"
  shows "match_here detect_regex (''['' @ a @ ''{'' @ b @ ''}'' @ c @ '']'' @ post) =
           Some (None, Some (''['' @ a @ ''{'' @ b @ ''}'' @ c @ '']''))"
proof -
  have "rmatch (Group 2 (Seq (Lit ''['') (Seq (LazyStar AnyChar) (Seq (Lit ''{'') (Seq (GreedyStar Dot)
            (Seq (Lit [CHR ''}'']) (Seq (LazyStar AnyChar) (Lit '']''))))))))
      (''['' @ a @ ''{'' @ b @ CHR ''}'' # c @ '']'' @ post) (None, None) (\<lambda>s' cs'. Some cs') =
      Some (set_cap 2 (''['' @ a @ ''{'' @ b @ CHR ''}'' # c @ '']'') (None, None))"
  proof (rule rmatch_object_shape)
    fix u1 u2
    assume "a = u1 @ u2" and "u2 \<noteq> []"
    with assms(1) show "\<not> prefix ''{'' (u2 @ ''{'' @ b @ CHR ''}'' # c @ '']'' @ post)"
      by (intro no_prefix_without) auto
  next
    show "\<forall>y\<in>set b. cmatches Dot y"
      using assms(2,3) by auto
    show "cmatches Dot CHR ''}''" by simp
    show "CHR ''}'' \<notin> set (c @ '']'' @ post)"
      using assms(4,6) by simp
  next
    fix u1 u2
    assume "c = u1 @ u2" and "u2 \<noteq> []"
    with assms(5) show "\<not> prefix '']'' (u2 @ '']'' @ post)"
      by (intro no_prefix_without) auto
  qed
  then show ?thesis
    using fence_fails_at_bracket [of "a @ ''{'' @ b @ ''}'' @ c @ '']'' @ post" "(None, None)" "\<lambda>s' cs'. Some cs'"]
    by (simp add: match_here_def detect_regex_def)
qed

lemma extract_json_fence:
  assumes "trim text = pre @ ''```json\<newline>'' @ body @ ''\<newline>```'' @ post"
    and "CHR ''['' \<notin> set pre" and "\<not> str_includes pre ''```json\<newline>''"
    and "body \<noteq> []" and "\<not> str_includes body ''\<newline>```''"
  shows "extract_json detect_regex text = Some body" and "extract_json prompts_regex text = Some body"
proof -
  let ?s = "''```json\<newline>'' @ body @ ''\<newline>```'' @ post"
  have "str_match detect_regex (pre @ ?s) = Some (Some body, None)"
    using skip_before_fence(1) [OF assms(2,3), of "body @ ''\<newline>```'' @ post"] fence_taken(1) [OF assms(5), of post]
    by (simp only: str_match_hit)
  then show "extract_json detect_regex text = Some body"
    using assms(1,4) by (simp add: extract_json_def)
  have "str_match prompts_regex (pre @ ?s) = Some (Some body, None)"
    using skip_before_fence(2) [OF assms(2,3), of "body @ ''\<newline>```'' @ post"] fence_taken(2) [OF assms(5), of post]
    by (simp only: str_match_hit)
  then show "extract_json prompts_regex text = Some body"
    using assms(1,4) by (simp add: extract_json_def)
qed

lemma extract_json_bracket:
  assumes "trim text = pre @ ''['' @ body @ '']'' @ post"
    and "CHR ''['' \<notin> set pre" and "\<not> str_includes pre ''```json\<newline>''"
    and "CHR '']'' \<notin> set body"
  shows "extract_json prompts_regex text = Some (''['' @ body @ '']'')"
proof -
  let ?s = "''['' @ body @ '']'' @ post"
  have "str_match prompts_regex (pre @ ?s) = Some (None, Some (''['' @ body @ '']''))"
    using skip_before_bracket(2) [OF assms(2,3), of "body @ '']'' @ post"] bracket_taken [OF assms(4), of post]
    by (simp only: str_match_hit)
  then show ?thesis
    using assms(1) by (simp add: extract_json_def)
qed

lemma extract_json_object_array:
  assumes "trim text = pre @ ''['' @ a @ ''{'' @ b @ ''}'' @ c @ '']'' @ post"
    and "CHR ''['' \<notin> set pre" and "\<not> str_includes pre ''```json\<newline>''"
    and "CHR ''{'' \<notin> set a"
    and "CHR 0x0A \<notin> set b" and "CHR 0x0D \<notin> set b"
    and "CHR ''}'' \<notin> set c" and "CHR '']'' \<notin> set c" and "CHR ''}'' \<notin> set post"
  shows "extract_json detect_regex text = Some (''['' @ a @ ''{'' @ b @ ''}'' @ c @ '']'')"
proof -
  let ?s = "''['' @ a @ ''{'' @ b @ ''}'' @ c @ '']'' @ post"
  have "str_match detect_regex (pre @ ?s) = Some (None, Some (''['' @ a @ ''{'' @ b @ ''}'' @ c @ '']''))"
    using skip_before_bracket(1) [OF assms(2,3), of "a @ ''{'' @ b @ ''}'' @ c @ '']'' @ post"]
      object_array_taken [OF assms(4-9)]
    by (simp only: str_match_hit)
  then show ?thesis
    using assms(1) by (simp add: extract_json_def)
qed

lemma extract_json_whole:
  assumes "CHR ''['' \<notin> set (trim text)" and "\<not> str_includes (trim text) ''```json\<newline>''"
  shows "extract_json detect_regex text = Some (trim text)"
    and "extract_json prompts_regex text = Some (trim text)"
  using str_match_none [OF assms] by (simp_all add: extract_json_def)

subsection \<open>What the operations take and return\<close>

text \<open>
  When no \<open>[\<close> and no fence opener stands before the candidate, the patterns take the
  interior of a fence, the text from the first \<open>[\<close> to the first \<open>]\<close> after it
  (\<open>generatePrompts\<close>), or to the first \<open>]\<close> after the last \<open>}\<close> (\<open>detectObjects\<close>);
  without any \<open>[\<close> or fence opener the whole trimmed text is parsed; and a text that
  does not parse gives the invalid-response error. An array that an operation returns
  is always the one its extracted text parses to, never a default.
\<close>

lemma extraction_without_brackets_before:
  "(trim reply = pre @ ''```json\<newline>'' @ body @ ''\<newline>```'' @ post \<and>
      CHR ''['' \<notin> set pre \<and> \<not> str_includes pre ''```json\<newline>'' \<and> body \<noteq> [] \<and>
      \<not> str_includes body ''\<newline>```'' \<longrightarrow>
      extract_json detect_regex reply = Some body \<and> extract_json prompts_regex reply = Some body) \<and>
   (trim reply = pre @ ''['' @ body @ '']'' @ post \<and>
      CHR ''['' \<notin> set pre \<and> \<not> str_includes pre ''```json\<newline>'' \<and> CHR '']'' \<notin> set body \<longrightarrow>
      extract_json prompts_regex reply = Some (''['' @ body @ '']'')) \<and>
   (trim reply = pre @ ''['' @ a @ ''{'' @ b @ ''}'' @ c @ '']'' @ post \<and>
      CHR ''['' \<notin> set pre \<and> \<not> str_includes pre ''```json\<newline>'' \<and> CHR ''{'' \<notin> set a \<and>
      CHR 0x0A \<notin> set b \<and> CHR 0x0D \<notin> set b \<and>
      CHR ''}'' \<notin> set c \<and> CHR '']'' \<notin> set c \<and> CHR ''}'' \<notin> set post \<longrightarrow>
      extract_json detect_regex reply = Some (''['' @ a @ ''{'' @ b @ ''}'' @ c @ '']'')) \<and>
   (CHR ''['' \<notin> set (trim reply) \<and> \<not> str_includes (trim reply) ''```json\<newline>'' \<longrightarrow>
      extract_json detect_regex reply = Some (trim reply) \<and>
      extract_json prompts_regex reply = Some (trim reply)) \<and>
   (parse (js_string (extract_json detect_regex reply)) = None \<longrightarrow>
      detectObjects parse (Inr reply) =
        Inl ''Received an invalid response from the AI when detecting objects. Please try a different image.'') \<and>
   (parse (js_string (extract_json prompts_regex reply)) = None \<longrightarrow>
      generatePrompts parse (Inr reply) =
        Inl ''Received an invalid response from the AI when generating prompts.'')"
proof (intro conjI impI)
  assume "trim reply = pre @ ''```json\<newline>'' @ body @ ''\<newline>```'' @ post \<and>
      CHR ''['' \<notin> set pre \<and> \<not> str_includes pre ''```json\<newline>'' \<and> body \<noteq> [] \<and>
      \<not> str_includes body ''\<newline>```''"
  then show "extract_json detect_regex reply = Some body" and "extract_json prompts_regex reply = Some body"
    using extract_json_fence [of reply pre body post] by blast+
next
  assume "trim reply = pre @ ''['' @ body @ '']'' @ post \<and>
      CHR ''['' \<notin> set pre \<and> \<not> str_includes pre ''```json\<newline>'' \<and> CHR '']'' \<notin> set body"
  then show "extract_json prompts_regex reply = Some (''['' @ body @ '']'')"
    using extract_json_bracket [of reply pre body post] by blast
next
  assume "trim reply = pre @ ''['' @ a @ ''{'' @ b @ ''}'' @ c @ '']'' @ post \<and>
      CHR ''['' \<notin> set pre \<and> \<not> str_includes pre ''```json\<newline>'' \<and> CHR ''{'' \<notin> set a \<and>
      CHR 0x0A \<notin> set b \<and> CHR 0x0D \<notin> set b \<and>
      CHR ''}'' \<notin> set c \<and> CHR '']'' \<notin> set c \<and> CHR ''}'' \<notin> set post"
  then show "extract_json detect_regex reply = Some (''['' @ a @ ''{'' @ b @ ''}'' @ c @ '']'')"
    using extract_json_object_array [of reply pre a b c post] by blast
next
  assume "CHR ''['' \<notin> set (trim reply) \<and> \<not> str_includes (trim reply) ''```json\<newline>''"
  then show "extract_json detect_regex reply = Some (trim reply)"
    and "extract_json prompts_regex reply = Some (trim reply)"
    using extract_json_whole [of reply] by blast+
next
  assume "parse (js_string (extract_json detect_regex reply)) = None"
  then show "detectObjects parse (Inr reply) =
        Inl ''Received an invalid response from the AI when detecting objects. Please try a different image.''"
    by (simp add: detectObjects_def)
next
  assume "parse (js_string (extract_json prompts_regex reply)) = None"
  then show "generatePrompts parse (Inr reply) =
        Inl ''Received an invalid response from the AI when generating prompts.''"
    by (simp add: generatePrompts_def)
qed

lemma detect_no_default:
  "detectObjects parse (Inr reply) = Inr xs \<Longrightarrow>
   parse (js_string (extract_json detect_regex reply)) = Some (JArr xs)"
  by (auto simp: detectObjects_def split: option.splits json.splits)

lemma prompts_no_default:
  "generatePrompts parse (Inr reply) = Inr xs \<Longrightarrow>
   parse (js_string (extract_json prompts_regex reply)) = Some (JArr xs) \<and> xs \<noteq> []"
  by (auto simp: generatePrompts_def split: option.splits json.splits if_splits)

section \<open>The claims about the text operations\<close>

text \<open>
  Claim C3 (extraction): the code does not meet it. The patterns of lines 437 and
  469 are matched at the leftmost position of the text, and their bracket form is
  lazy, not a balanced scan. In the first run the reply is a valid array of two
  prompts, the first of which holds brackets: the extraction cuts the text at the
  first \<open>]\<close>, and \<open>generatePrompts\<close> refuses the valid reply. In the second run the
  reply holds a fenced array after prose with a bracketed reference: the bracket
  wins over the fence and \<open>generatePrompts\<close> returns the array of the prose instead
  of the fenced one. In the third run \<open>detectObjects\<close> refuses a fenced array for
  the same reason. \<open>JSON.parse\<close> is given by its table on the texts concerned; the
  texts that the first and the third run hand to it are not JSON.
\<close>

theorem extraction_refuses_valid_replies:
  "extract_json prompts_regex ''[\"move [left]\", \"b\"]'' = Some ''[\"move [left]'' \<and>
   generatePrompts (map_of [(''[\"move [left]\", \"b\"]'', JArr [JStr ''move [left]'', JStr ''b''])])
     (Inr ''[\"move [left]\", \"b\"]'') =
     Inl ''Received an invalid response from the AI when generating prompts.'' \<and>
   extract_json prompts_regex (''See [1]:\<newline>'' @ ''```json\<newline>'' @ ''[\"a\", \"b\"]'' @ ''\<newline>```'') =
     Some ''[1]'' \<and>
   generatePrompts (map_of [(''[1]'', JArr [JNum 1]), (''[\"a\", \"b\"]'', JArr [JStr ''a'', JStr ''b''])])
     (Inr (''See [1]:\<newline>'' @ ''```json\<newline>'' @ ''[\"a\", \"b\"]'' @ ''\<newline>```'')) = Inr [JNum 1] \<and>
   extract_json detect_regex (''see [note]:\<newline>'' @ ''```json\<newline>'' @ ''[{\"name\": \"cat\"}]'' @ ''\<newline>```'') =
     Some ''[note]:\<newline>```json\<newline>[{\"name\": \"cat\"}]'' \<and>
   detectObjects (map_of [(''[{\"name\": \"cat\"}]'', JArr [JObj [(''name'', JStr ''cat'')]])])
     (Inr (''see [note]:\<newline>'' @ ''```json\<newline>'' @ ''[{\"name\": \"cat\"}]'' @ ''\<newline>```'')) =
     Inl ''Received an invalid response from the AI when detecting objects. Please try a different image.''"
  by code_simp

text \<open>
  Claim C6 (empty or non-array detection). When the text handed to \<open>JSON.parse\<close>
  parses to the empty array or to a value that is no array, the detection step
  \<open>runObjectDetection\<close> ends with an error message and leaves the detected objects,
  the selection and \<open>detectionComplete\<close> as they were: no empty result is presented as a
  success. For a value that is no array \<open>detectObjects\<close> itself throws; for the empty
  array \<open>detectObjects\<close> returns it and its caller reports the error (line 384).
\<close>

theorem empty_or_non_array_detection_fails:
  assumes "parse (js_string (extract_json detect_regex reply)) = Some v"
    and "v = JArr [] \<or> \<not> isArray v"
  shows "error (runObjectDetection parse (Inr reply) st) =
      Some (if v = JArr []
            then ''Sorry, no distinct objects could be identified in the image. Please try another one.''
            else ''Failed to detect objects in the required format.'') \<and>
    detectedObjects (runObjectDetection parse (Inr reply) st) = detectedObjects st \<and>
    selectedObject (runObjectDetection parse (Inr reply) st) = selectedObject st \<and>
    detectionComplete (runObjectDetection parse (Inr reply) st) = detectionComplete st \<and>
    \<not> isLoading (runObjectDetection parse (Inr reply) st) \<and>
    detectObjects parse (Inr reply) =
      (if v = JArr [] then Inr [] else Inl ''Failed to detect objects in the required format.'')"
  using assms
  by (cases v) (auto simp: runObjectDetection_def detectObjects_def Let_def)

theorem empty_or_non_array_detection_fails_witness:
  "error (runObjectDetection (map_of [(''[]'', JArr []), (''{}'', JObj [])]) (Inr '' [] '') start_state) =
      Some ''Sorry, no distinct objects could be identified in the image. Please try another one.'' \<and>
   detectedObjects (runObjectDetection (map_of [(''[]'', JArr []), (''{}'', JObj [])]) (Inr '' [] '') start_state) = [] \<and>
   \<not> detectionComplete (runObjectDetection (map_of [(''[]'', JArr []), (''{}'', JObj [])]) (Inr '' [] '') start_state) \<and>
   error (runObjectDetection (map_of [(''[]'', JArr []), (''{}'', JObj [])]) (Inr ''{}'') start_state) =
      Some ''Failed to detect objects in the required format.'' \<and>
   \<not> detectionComplete (runObjectDetection (map_of [(''[]'', JArr []), (''{}'', JObj [])]) (Inr ''{}'') start_state)"
proof -
  let ?parse = "map_of [(''[]'', JArr []), (''{}'', JObj [])]"
  have p1: "?parse (js_string (extract_json detect_regex '' [] '')) = Some (JArr [])"
    by code_simp
  have p2: "?parse (js_string (extract_json detect_regex ''{}'')) = Some (JObj [])"
    by code_simp
  have h1: "JArr [] = JArr [] \<or> \<not> isArray (JArr [])" by simp
  have h2: "JObj [] = JArr [] \<or> \<not> isArray (JObj [])" by simp
  show ?thesis
    using empty_or_non_array_detection_fails [of ?parse "'' [] ''" "JArr []" start_state, OF p1 h1]
      empty_or_non_array_detection_fails [of ?parse "''{}''" "JObj []" start_state, OF p2 h2]
    by (simp add: start_state_def)
qed

text \<open>
  Claim C7 (detection result), as amended. When the text handed to \<open>JSON.parse\<close>
  parses to an array, \<open>detectObjects\<close> returns that array as parsed, in the order the
  service listed the entries. Neither the number of entries nor their fields are
  checked: at most 5 objects and boxes within 0.0 and 1.0 are only asked for in the
  request. \<open>runObjectDetection\<close> stores a non-empty array unchanged and selects its
  first entry.
\<close>

theorem detect_returns_parsed_array:
  assumes "parse (js_string (extract_json detect_regex reply)) = Some (JArr xs)"
  shows "detectObjects parse (Inr reply) = Inr xs \<and>
    (xs \<noteq> [] \<longrightarrow>
       detectedObjects (runObjectDetection parse (Inr reply) st) = xs \<and>
       selectedObject (runObjectDetection parse (Inr reply) st) = Some (xs ! 0) \<and>
       detectionComplete (runObjectDetection parse (Inr reply) st) \<and>
       error (runObjectDetection parse (Inr reply) st) = error st)"
  using assms
  by (cases xs) (simp_all add: runObjectDetection_def detectObjects_def Let_def)

theorem detect_returns_parsed_array_witness:
  "detectObjects (map_of [(six_objects_text, JArr six_objects)]) (Inr six_objects_text) = Inr six_objects \<and>
   six_objects \<noteq> [] \<and>
   detectedObjects (runObjectDetection (map_of [(six_objects_text, JArr six_objects)]) (Inr six_objects_text) start_state) =
     six_objects \<and>
   selectedObject (runObjectDetection (map_of [(six_objects_text, JArr six_objects)]) (Inr six_objects_text) start_state) =
     Some (unit_box_object ''a'')"
proof -
  let ?parse = "map_of [(six_objects_text, JArr six_objects)]"
  have e: "extract_json detect_regex six_objects_text = Some six_objects_text"
    by code_simp
  have p: "?parse (js_string (extract_json detect_regex six_objects_text)) = Some (JArr six_objects)"
    by (simp add: e js_string_def)
  have n: "six_objects \<noteq> []" "six_objects ! 0 = unit_box_object ''a''"
    by (simp_all add: six_objects_def)
  show ?thesis
    using detect_returns_parsed_array [of ?parse six_objects_text six_objects start_state, OF p] n by simp
qed

text \<open>The claim as stated fails on a response that lists six objects: all six are returned.\<close>

theorem detect_claim_counterexample:
  "detectObjects (map_of [(six_objects_text, JArr six_objects)]) (Inr six_objects_text) = Inr six_objects \<and>
   length six_objects = 6 \<and> \<not> length six_objects \<le> 5"
proof -
  have e: "extract_json detect_regex six_objects_text = Some six_objects_text"
    by code_simp
  show ?thesis
    by (simp add: detectObjects_def e js_string_def six_objects_def)
qed

text \<open>
  Claim C8 (prompt sequence), as amended. \<open>generatePrompts\<close> returns an array exactly
  when the text handed to \<open>JSON.parse\<close> parses to an array with at least one element,
  and then returns that array as parsed: its length and its elements are not checked
  (6 prompts are only asked for in the request). In every other case it throws: the
  call failed, the text does not parse, or the value is no array or the empty array.
\<close>

theorem prompts_returns_nonempty_array:
  "(generatePrompts parse (Inr reply) = Inr xs) =
     (parse (js_string (extract_json prompts_regex reply)) = Some (JArr xs) \<and> xs \<noteq> []) \<and>
   ((\<exists>message. generatePrompts parse (Inr reply) = Inl message) =
     (\<forall>ys. parse (js_string (extract_json prompts_regex reply)) = Some (JArr ys) \<longrightarrow> ys = [])) \<and>
   generatePrompts parse (Inl thrown) = Inl thrown"
proof -
  show ?thesis
  proof (cases "parse (js_string (extract_json prompts_regex reply))")
    case None
    then show ?thesis by (simp add: generatePrompts_def)
  next
    case (Some v)
    then show ?thesis by (cases v) (auto simp: generatePrompts_def)
  qed
qed

theorem prompts_returns_nonempty_array_witness:
  "generatePrompts (map_of [(''[\"a\", \"\"]'', JArr [JStr ''a'', JStr ''''])]) (Inr ''Sure: [\"a\", \"\"]'') =
     Inr [JStr ''a'', JStr ''''] \<and>
   (\<exists>message. generatePrompts (map_of [(''[]'', JArr [])]) (Inr ''[]'') = Inl message)"
proof -
  have p1: "map_of [(''[\"a\", \"\"]'', JArr [JStr ''a'', JStr ''''])]
      (js_string (extract_json prompts_regex ''Sure: [\"a\", \"\"]'')) = Some (JArr [JStr ''a'', JStr ''''])"
    by code_simp
  have p2: "map_of [(''[]'', JArr [])] (js_string (extract_json prompts_regex ''[]'')) = Some (JArr [])"
    by code_simp
  show ?thesis
    using prompts_returns_nonempty_array [of "map_of [(''[\"a\", \"\"]'', JArr [JStr ''a'', JStr ''''])]"
        "''Sure: [\"a\", \"\"]''" "[JStr ''a'', JStr '''']"]
      prompts_returns_nonempty_array [of "map_of [(''[]'', JArr [])]" "''[]''"] p1 p2
    by simp
qed

text \<open>
  The claim as stated fails on a response with two entries, one of them the empty
  string: the result has neither 6 entries nor only non-empty strings.
\<close>

theorem prompts_claim_counterexample:
  "generatePrompts (map_of [(''[\"a\", \"\"]'', JArr [JStr ''a'', JStr ''''])]) (Inr ''[\"a\", \"\"]'') =
     Inr [JStr ''a'', JStr ''''] \<and>
   length [JStr ''a'', JStr ''''] \<noteq> 6 \<and>
   [JStr ''a'', JStr ''''] ! 1 = JStr []"
  by code_simp

text \<open>
  Claim C9 (presentation). Let \<open>handleGenerateAnimation\<close> run with an object
  selected, an image uploaded and \<open>N\<close> prompts returned by \<open>generatePrompts\<close>. When
  \<open>generateFrames\<close> returns its frames, the presented frames are the data of the
  original image followed by these \<open>N\<close> frames, the presented prompts are
  \<open>Original Image\<close> followed by the prompts, both lists have \<open>N + 1\<close> entries, entry
  \<open>i + 1\<close> of the prompts is the prompt of entry \<open>i + 1\<close> of the frames, and no error
  is set. \<open>generateFrames\<close> returns when no request is answered with a rejection
  without a string message. When it throws, its message is stored as the error and
  the presented lists stay as they were.
\<close>

theorem presentation_alignment:
  assumes "uploadedImage st = Some uploaded" and "selectedObject st = Some obj" and "js_truthy obj"
    and "generatePrompts parse answer = Inr prompts"
  shows "(\<forall>frames. generateFrames toStr ai (fileToGenerativePart uploaded) prompts = Inr frames \<longrightarrow>
      animationPrompts (handleGenerateAnimation parse toStr answer ai st) = JStr ''Original Image'' # prompts \<and>
      generatedFrames (handleGenerateAnimation parse toStr answer ai st) = file_base64 uploaded # frames \<and>
      length frames = length prompts \<and>
      length (generatedFrames (handleGenerateAnimation parse toStr answer ai st)) = length prompts + 1 \<and>
      length (animationPrompts (handleGenerateAnimation parse toStr answer ai st)) = length prompts + 1 \<and>
      generatedFrames (handleGenerateAnimation parse toStr answer ai st) ! 0 = file_base64 uploaded \<and>
      animationPrompts (handleGenerateAnimation parse toStr answer ai st) ! 0 = JStr ''Original Image'' \<and>
      (\<forall>i<length prompts.
         animationPrompts (handleGenerateAnimation parse toStr answer ai st) ! (i + 1) = prompts ! i \<and>
         generatedFrames (handleGenerateAnimation parse toStr answer ai st) ! (i + 1) = frames ! i) \<and>
      error (handleGenerateAnimation parse toStr answer ai st) = None \<and>
      \<not> isLoading (handleGenerateAnimation parse toStr answer ai st)) \<and>
    ((\<forall>tr. ai tr \<noteq> Rejects None) \<longrightarrow>
      (\<exists>frames. generateFrames toStr ai (fileToGenerativePart uploaded) prompts = Inr frames)) \<and>
    (\<forall>message. generateFrames toStr ai (fileToGenerativePart uploaded) prompts = Inl message \<longrightarrow>
      error (handleGenerateAnimation parse toStr answer ai st) = Some message \<and>
      animationPrompts (handleGenerateAnimation parse toStr answer ai st) = animationPrompts st \<and>
      generatedFrames (handleGenerateAnimation parse toStr answer ai st) = generatedFrames st)"
proof (intro conjI allI impI)
  fix frames
  assume g: "generateFrames toStr ai (fileToGenerativePart uploaded) prompts = Inr frames"
  have len: "length frames = length prompts"
    using g by (rule generateFrames_length)
  let ?r = "handleGenerateAnimation parse toStr answer ai st"
  have p: "animationPrompts ?r = JStr ''Original Image'' # prompts"
    and f: "generatedFrames ?r = file_base64 uploaded # frames"
    and e: "error ?r = None" and l: "\<not> isLoading ?r"
    using assms g by (simp_all add: handleGenerateAnimation_def Let_def fileToGenerativePart_def)
  show "animationPrompts ?r = JStr ''Original Image'' # prompts" by (rule p)
  show "generatedFrames ?r = file_base64 uploaded # frames" by (rule f)
  show "length frames = length prompts" by (rule len)
  show "length (generatedFrames ?r) = length prompts + 1" by (simp add: f len)
  show "length (animationPrompts ?r) = length prompts + 1" by (simp add: p)
  show "generatedFrames ?r ! 0 = file_base64 uploaded" by (simp add: f)
  show "animationPrompts ?r ! 0 = JStr ''Original Image''" by (simp add: p)
  show "error ?r = None" by (rule e)
  show "\<not> isLoading ?r" by (rule l)
  fix i
  assume "i < length prompts"
  show "animationPrompts ?r ! (i + 1) = prompts ! i" by (simp add: p)
  show "generatedFrames ?r ! (i + 1) = frames ! i" by (simp add: f)
next
  assume "\<forall>tr. ai tr \<noteq> Rejects None"
  then show "\<exists>frames. generateFrames toStr ai (fileToGenerativePart uploaded) prompts = Inr frames"
    using generateFrames_total by blast
next
  fix message
  assume g: "generateFrames toStr ai (fileToGenerativePart uploaded) prompts = Inl message"
  let ?r = "handleGenerateAnimation parse toStr answer ai st"
  show "error ?r = Some message" and "animationPrompts ?r = animationPrompts st"
    and "generatedFrames ?r = generatedFrames st"
    using assms g by (simp_all add: handleGenerateAnimation_def Let_def fileToGenerativePart_def)
qed

theorem presentation_alignment_witness:
  "generateFrames (\<lambda>v. case v of JStr s \<Rightarrow> s | _ \<Rightarrow> [])
      (scripted [image_response ''F1'', image_response ''F2'', image_response ''F3'',
                 image_response ''F4'', image_response ''F5'', image_response ''F6''])
      (fileToGenerativePart cat_file)
      [JStr ''p1'', JStr ''p2'', JStr ''p3'', JStr ''p4'', JStr ''p5'', JStr ''p6''] =
     Inr [Some ''F1'', Some ''F2'', Some ''F3'', Some ''F4'', Some ''F5'', Some ''F6''] \<and>
   animationPrompts (handleGenerateAnimation
      (map_of [(''[\"p1\", \"p2\", \"p3\", \"p4\", \"p5\", \"p6\"]'',
                JArr [JStr ''p1'', JStr ''p2'', JStr ''p3'', JStr ''p4'', JStr ''p5'', JStr ''p6''])])
      (\<lambda>v. case v of JStr s \<Rightarrow> s | _ \<Rightarrow> [])
      (Inr ''[\"p1\", \"p2\", \"p3\", \"p4\", \"p5\", \"p6\"]'')
      (scripted [image_response ''F1'', image_response ''F2'', image_response ''F3'',
                 image_response ''F4'', image_response ''F5'', image_response ''F6''])
      (start_state\<lparr>selectedObject := Some (unit_box_object ''cat'')\<rparr>)) =
     [JStr ''Original Image'', JStr ''p1'', JStr ''p2'', JStr ''p3'', JStr ''p4'', JStr ''p5'', JStr ''p6''] \<and>
   generatedFrames (handleGenerateAnimation
      (map_of [(''[\"p1\", \"p2\", \"p3\", \"p4\", \"p5\", \"p6\"]'',
                JArr [JStr ''p1'', JStr ''p2'', JStr ''p3'', JStr ''p4'', JStr ''p5'', JStr ''p6''])])
      (\<lambda>v. case v of JStr s \<Rightarrow> s | _ \<Rightarrow> [])
      (Inr ''[\"p1\", \"p2\", \"p3\", \"p4\", \"p5\", \"p6\"]'')
      (scripted [image_response ''F1'', image_response ''F2'', image_response ''F3'',
                 image_response ''F4'', image_response ''F5'', image_response ''F6''])
      (start_state\<lparr>selectedObject := Some (unit_box_object ''cat'')\<rparr>)) =
     [Some ''AAAA'', Some ''F1'', Some ''F2'', Some ''F3'', Some ''F4'', Some ''F5'', Some ''F6'']"
proof -
  let ?reply = "''[\"p1\", \"p2\", \"p3\", \"p4\", \"p5\", \"p6\"]''"
  let ?prompts = "[JStr ''p1'', JStr ''p2'', JStr ''p3'', JStr ''p4'', JStr ''p5'', JStr ''p6'']"
  let ?parse = "map_of [(?reply, JArr ?prompts)]"
  let ?toStr = "\<lambda>v. case v of JStr s \<Rightarrow> s | _ \<Rightarrow> []"
  let ?ai = "scripted [image_response ''F1'', image_response ''F2'', image_response ''F3'',
                 image_response ''F4'', image_response ''F5'', image_response ''F6'']"
  let ?st = "start_state\<lparr>selectedObject := Some (unit_box_object ''cat'')\<rparr>"
  have h1: "uploadedImage ?st = Some cat_file"
    by (simp add: start_state_def)
  have h2: "selectedObject ?st = Some (unit_box_object ''cat'')"
    by simp
  have h3: "js_truthy (unit_box_object ''cat'')"
    by (simp add: unit_box_object_def)
  have h4: "generatePrompts ?parse (Inr ?reply) = Inr ?prompts"
    by code_simp
  have g: "generateFrames ?toStr ?ai (fileToGenerativePart cat_file) ?prompts =
      Inr [Some ''F1'', Some ''F2'', Some ''F3'', Some ''F4'', Some ''F5'', Some ''F6'']"
    by code_simp
  have b: "file_base64 cat_file = Some ''AAAA''"
    by (simp add: cat_file_def)
  from presentation_alignment [OF h1 h2 h3 h4, of ?toStr ?ai] g b
  show ?thesis by simp
qed

end
